theory Spec2Isabelle
  imports Main "HOL-Library.Stream"
begin

section \<open>Values, failures and the Python primitives the bridge relies on\<close>

text \<open>
  Everything that crosses the link or sits in a notebook is JSON. A Python \<open>dict\<close> with string
  keys is an association list in insertion order.
\<close>

datatype json =
    JNull
  | JBool bool
  | JInt int
  | JStr string
  | JList "json list"
  | JObj "(string \<times> json) list"

type_synonym dict = "(string \<times> json) list"

text \<open>
  The exceptions the bridge raises or lets through, all subclasses of Python's \<open>Exception\<close>.
  \<open>HTTPError\<close> is what the contents manager raises for a path it cannot load. \<open>Empty\<close> is
  \<open>queue.Empty\<close>, which the kernel client raises when a wait for a message times out; it
  has no message and is not a \<open>TimeoutError\<close>. \<open>KeyError\<close> carries the missing key, the
  others their message.
\<close>

datatype error =
    ValueError string
  | RuntimeError string
  | IndexError string
  | KeyError string
  | TypeError string
  | HTTPError string
  | OverflowError string
  | Empty

text \<open>\<open>str(e)\<close>: the message, and for a \<open>KeyError\<close> the \<open>repr\<close> of the key.\<close>

fun str_error :: "error \<Rightarrow> string" where
  "str_error (ValueError m) = m"
| "str_error (RuntimeError m) = m"
| "str_error (IndexError m) = m"
| "str_error (KeyError k) = [CHR 0x27] @ k @ [CHR 0x27]"
| "str_error (TypeError m) = m"
| "str_error (HTTPError m) = m"
| "str_error (OverflowError m) = m"
| "str_error Empty = []"

text \<open>Decimal rendering of an integer inside an f-string.\<close>

fun str_nat :: "nat \<Rightarrow> string" where
  "str_nat n =
     (if n < 10 then [''0123456789'' ! n]
      else str_nat (n div 10) @ [''0123456789'' ! (n mod 10)])"

declare str_nat.simps [simp del]

definition str_int :: "int \<Rightarrow> string" where
  "str_int i = (if i < 0 then ''-'' @ str_nat (nat (- i)) else str_nat (nat i))"

text \<open>\<open>d.get(k)\<close>, \<open>d.get(k, default)\<close>, \<open>d[k]\<close> and \<open>d[k] = v\<close>.\<close>

definition dict_get :: "dict \<Rightarrow> string \<Rightarrow> json option" where
  "dict_get d k = map_of d k"

definition dict_get_or :: "dict \<Rightarrow> string \<Rightarrow> json \<Rightarrow> json" where
  "dict_get_or d k dflt = (case map_of d k of None \<Rightarrow> dflt | Some v \<Rightarrow> v)"

definition dict_item :: "dict \<Rightarrow> string \<Rightarrow> error + json" where
  "dict_item d k = (case map_of d k of None \<Rightarrow> Inl (KeyError k) | Some v \<Rightarrow> Inr v)"

fun dict_set :: "dict \<Rightarrow> string \<Rightarrow> json \<Rightarrow> dict" where
  "dict_set [] k v = [(k, v)]"
| "dict_set ((k', v') # d) k v = (if k' = k then (k, v) # d else (k', v') # dict_set d k v)"

text \<open>
  \<open>a or b\<close> on optional strings: \<open>a\<close> when it is truthy (neither \<open>None\<close> nor empty),
  otherwise \<open>b\<close>, whatever \<open>b\<close> is.
\<close>

fun truthy :: "string option \<Rightarrow> bool" where
  "truthy None = False"
| "truthy (Some s) = (s \<noteq> [])"

definition py_or :: "string option \<Rightarrow> string option \<Rightarrow> string option" where
  "py_or a b = (if truthy a then a else b)"

text \<open>\<open>str(x)\<close> of an optional string inside an f-string.\<close>

fun str_opt :: "string option \<Rightarrow> string" where
  "str_opt None = ''None''"
| "str_opt (Some s) = s"

text \<open>
  \<open>list.insert(i, x)\<close> converts the index to a signed 64-bit \<open>ssize_t\<close> and raises
  \<open>OverflowError\<close> when it does not fit. An index that fits never fails: a negative one
  counts from the end, and the position is clamped to \<open>[0, len]\<close>.
\<close>

definition fits_ssize_t :: "int \<Rightarrow> bool" where
  "fits_ssize_t i = (- (2 ^ 63) \<le> i \<and> i < 2 ^ 63)"

definition py_insert :: "'a list \<Rightarrow> int \<Rightarrow> 'a \<Rightarrow> error + 'a list" where
  "py_insert xs i x =
     (if \<not> fits_ssize_t i then Inl (OverflowError ''Python int too large to convert to C ssize_t'')
      else
        (let n = int (length xs);
             j = (if i < 0 then max 0 (n + i) else min i n)
         in Inr (take (nat j) xs @ [x] @ drop (nat j) xs)))"

text \<open>
  \<open>xs.pop(i)\<close>, \<open>del xs[i]\<close> and \<open>xs[i]\<close> accept a negative index counting from the end
  and raise \<open>IndexError\<close> outside the list. The bridge reaches them only behind a guard
  \<open>0 \<le> i < len(xs)\<close>, where the index fits.
\<close>

definition py_index :: "'a list \<Rightarrow> int \<Rightarrow> nat option" where
  "py_index xs i =
     (let n = int (length xs);
          j = (if i < 0 then n + i else i)
      in if 0 \<le> j \<and> j < n then Some (nat j) else None)"

definition py_pop :: "'a list \<Rightarrow> int \<Rightarrow> error + ('a \<times> 'a list)" where
  "py_pop xs i =
     (case py_index xs i of
        None \<Rightarrow> Inl (IndexError ''pop index out of range'')
      | Some j \<Rightarrow> Inr (xs ! j, take j xs @ drop (Suc j) xs))"

definition py_del :: "'a list \<Rightarrow> int \<Rightarrow> error + 'a list" where
  "py_del xs i =
     (case py_index xs i of
        None \<Rightarrow> Inl (IndexError ''list assignment index out of range'')
      | Some j \<Rightarrow> Inr (take j xs @ drop (Suc j) xs))"

definition py_getitem :: "'a list \<Rightarrow> int \<Rightarrow> error + 'a" where
  "py_getitem xs i =
     (case py_index xs i of
        None \<Rightarrow> Inl (IndexError ''list index out of range'')
      | Some j \<Rightarrow> Inr (xs ! j))"

section \<open>The bridge and its collaborators\<close>

text \<open>
  Handler parameters. The tool side sends \<open>cell_index\<close>, \<open>from_index\<close> and \<open>to_index\<close> as
  integers and the other entries as strings; \<open>None\<close> is an entry that is absent (what
  \<open>params.get\<close> returns then).
\<close>

record params =
  p_path :: "string option"
  p_cell_index :: "int option"
  p_cell_type :: "string option"
  p_source :: "string option"
  p_from_index :: "int option"
  p_to_index :: "int option"
  p_code :: "string option"

definition no_params :: params where
  "no_params = \<lparr>p_path = None, p_cell_index = None, p_cell_type = None, p_source = None,
                 p_from_index = None, p_to_index = None, p_code = None\<rparr>"

text \<open>
  A notebook's content: the \<open>cells\<close> entry (a list of cell dicts, possibly absent) and the
  remaining entries. \<open>content.get("cells", [])\<close> is \<open>content_cells\<close>.
\<close>

record content =
  cells_entry :: "dict list option"
  other_entries :: dict

definition content_cells :: "content \<Rightarrow> dict list" where
  "content_cells c = (case cells_entry c of None \<Rightarrow> [] | Some cs \<Rightarrow> cs)"

text \<open>
  The contents manager is the external document store: \<open>get\<close> loads the content saved at a
  path or raises, \<open>save\<close> replaces it.
\<close>

type_synonym contents = "string \<rightharpoonup> content"

definition cm_get :: "contents \<Rightarrow> string \<Rightarrow> error + content" where
  "cm_get cm path =
     (case cm path of
        None \<Rightarrow> Inl (HTTPError (''No such file or directory: '' @ path))
      | Some c \<Rightarrow> Inr c)"

definition cm_save :: "contents \<Rightarrow> content \<Rightarrow> string \<Rightarrow> contents" where
  "cm_save cm c path = cm(path \<mapsto> c)"

text \<open>
  A message of the kernel's broadcast channel: \<open>msg["header"]["msg_type"]\<close>,
  \<open>msg["parent_header"].get("msg_id")\<close> and \<open>msg["content"]\<close>. One call of
  \<open>get_iopub_msg(timeout=30)\<close> returns a message (\<open>Msg\<close>), raises the builtin
  \<open>TimeoutError\<close> (\<open>WaitTimeout\<close>), or raises something else (\<open>PollFailure\<close>); the channel
  is the unending sequence of these outcomes. A wait of the kernel client that runs out of
  time raises \<open>queue.Empty\<close>: it is \<open>PollFailure Empty\<close>.
\<close>

record message =
  msg_type :: string
  parent_msg_id :: "string option"
  msg_content :: dict

datatype poll = Msg message | WaitTimeout | PollFailure error

record client =
  execute :: "string \<Rightarrow> string"
  iopub :: "poll stream"

record session =
  session_path :: "string option"
  session_kernel_id :: "string option"

text \<open>
  The bridge's collaborators, and whether the thread that calls the bridge is already running
  an event loop. Every bridge method that talks to a collaborator creates a fresh loop and
  calls \<open>loop.run_until_complete\<close> on it; asyncio refuses that with \<open>RuntimeError\<close> while
  another loop is running in the thread, before the awaited call is started.
\<close>

record bridge =
  contents_manager :: "contents option"
  session_manager :: "session list option"
  kernel_manager :: "(string \<rightharpoonup> client) option"
  loop_running :: bool

definition loop_error :: error where
  "loop_error = RuntimeError ''Cannot run the event loop while another loop is running''"

definition run_until_complete :: "bridge \<Rightarrow> (error + 'a) \<Rightarrow> error + 'a" where
  "run_until_complete b call = (if loop_running b then Inl loop_error else call)"

section \<open>Notebook discovery and cell operations\<close>

text \<open>
  What \<open>get_notebook_content\<close> returns: the path, one summary dict per cell, and the
  notebook metadata.
\<close>

record notebook_view =
  view_path :: string
  view_cells :: "dict list"
  view_metadata :: json

definition cell_view :: "nat \<Rightarrow> dict \<Rightarrow> dict" where
  "cell_view i cell =
     [(''index'', JInt (int i)),
      (''cell_type'', dict_get_or cell ''cell_type'' JNull),
      (''source'', dict_get_or cell ''source'' JNull),
      (''outputs'', dict_get_or cell ''outputs'' (JList [])),
      (''metadata'', dict_get_or cell ''metadata'' (JObj []))]"

text \<open>
  The \<open>except Exception\<close> clause of \<open>get_notebook_content\<close> logs and re-raises, so a failure
  of \<open>run_until_complete\<close> or of the contents manager comes out as it is.
\<close>

definition get_notebook_content :: "bridge \<Rightarrow> params \<Rightarrow> string option \<Rightarrow> error + notebook_view" where
  "get_notebook_content b ps notebook_id =
     (case py_or notebook_id (p_path ps) of
        None \<Rightarrow> Inl (ValueError ''Notebook path required'')
      | Some path \<Rightarrow>
          if path = [] then Inl (ValueError ''Notebook path required'')
          else
            (case contents_manager b of
               None \<Rightarrow> Inl (RuntimeError ''Contents manager not available'')
             | Some cm \<Rightarrow>
                 (case run_until_complete b (cm_get cm path) of
                    Inl e \<Rightarrow> Inl e
                  | Inr c \<Rightarrow>
                      Inr \<lparr>view_path = path,
                           view_cells = map (\<lambda>(i, cell). cell_view i cell) (enumerate 0 (content_cells c)),
                           view_metadata = dict_get_or (other_entries c) ''metadata'' (JObj [])\<rparr>)))"

text \<open>
  A handler returns its result or raises, and leaves the bridge's collaborators in some state;
  both are returned. \<open>get_cell\<close> only reads.
\<close>

definition get_cell :: "bridge \<Rightarrow> params \<Rightarrow> string option \<Rightarrow> (error + json) \<times> bridge" where
  "get_cell b ps notebook_id =
     (case p_cell_index ps of
        None \<Rightarrow> (Inl (ValueError ''cell_index required''), b)
      | Some cell_index \<Rightarrow>
          (case get_notebook_content b ps notebook_id of
             Inl e \<Rightarrow> (Inl e, b)
           | Inr view \<Rightarrow>
               (let cells = view_cells view in
                if cell_index < 0 \<or> cell_index \<ge> int (length cells)
                then (Inl (IndexError (''Cell index '' @ str_int cell_index @ '' out of range (0-''
                                        @ str_int (int (length cells) - 1) @ '')'')), b)
                else (case py_getitem cells cell_index of
                        Inl e \<Rightarrow> (Inl e, b)
                      | Inr cell \<Rightarrow> (Inr (JObj [(''cell'', JObj cell)]), b)))))"

text \<open>
  The four uses of \<open>_modify_notebook\<close>: the operation name with the keyword arguments its
  call site passes.
\<close>

datatype operation =
    Insert int string string
  | Update int string
  | Delete int
  | Move int int

fun operation_name :: "operation \<Rightarrow> string" where
  "operation_name (Insert cell_index cell_type source) = ''insert''"
| "operation_name (Update cell_index source) = ''update''"
| "operation_name (Delete cell_index) = ''delete''"
| "operation_name (Move from_index to_index) = ''move''"

definition new_cell :: "string \<Rightarrow> string \<Rightarrow> dict" where
  "new_cell cell_type source =
     [(''cell_type'', JStr cell_type), (''source'', JStr source), (''metadata'', JObj [])]
     @ (if cell_type = ''code'' then [(''outputs'', JList []), (''execution_count'', JNull)] else [])"

text \<open>The branch of \<open>_modify_notebook\<close> that edits the list of cells.\<close>

fun perform_operation :: "operation \<Rightarrow> dict list \<Rightarrow> error + dict list" where
  "perform_operation (Insert cell_index cell_type source) cells =
     py_insert cells cell_index (new_cell cell_type source)"
| "perform_operation (Update idx source) cells =
     (if idx < 0 \<or> idx \<ge> int (length cells)
      then Inl (IndexError (''Cell index '' @ str_int idx @ '' out of range''))
      else (case py_getitem cells idx of
              Inl e \<Rightarrow> Inl e
            | Inr cell \<Rightarrow> Inr (cells[nat idx := dict_set cell ''source'' (JStr source)])))"
| "perform_operation (Delete idx) cells =
     (if idx < 0 \<or> idx \<ge> int (length cells)
      then Inl (IndexError (''Cell index '' @ str_int idx @ '' out of range''))
      else py_del cells idx)"
| "perform_operation (Move from_idx to_idx) cells =
     (if from_idx < 0 \<or> from_idx \<ge> int (length cells)
      then Inl (IndexError (''from_index '' @ str_int from_idx @ '' out of range''))
      else if to_idx < 0 \<or> to_idx > int (length cells)
      then Inl (IndexError (''to_index '' @ str_int to_idx @ '' out of range''))
      else (case py_pop cells from_idx of
              Inl e \<Rightarrow> Inl e
            | Inr (cell, rest) \<Rightarrow> py_insert rest to_idx cell))"

text \<open>
  \<open>_modify_notebook\<close>: load the content, edit the cells, store them back under \<open>cells\<close>,
  save, and report the new cell count. The load and the save each go through
  \<open>run_until_complete\<close>. A failure before the save leaves the store as it was.
\<close>

definition modify_notebook :: "bridge \<Rightarrow> string \<Rightarrow> operation \<Rightarrow> (error + json) \<times> bridge" where
  "modify_notebook b path operation =
     (case contents_manager b of
        None \<Rightarrow> (Inl (RuntimeError ''Contents manager not available''), b)
      | Some cm \<Rightarrow>
          (case run_until_complete b (cm_get cm path) of
             Inl e \<Rightarrow> (Inl e, b)
           | Inr c \<Rightarrow>
               (case perform_operation operation (content_cells c) of
                  Inl e \<Rightarrow> (Inl e, b)
                | Inr cells \<Rightarrow>
                    (case run_until_complete b (Inr (cm_save cm (c\<lparr>cells_entry := Some cells\<rparr>) path)) of
                       Inl e \<Rightarrow> (Inl e, b)
                     | Inr cm' \<Rightarrow>
                         (Inr (JObj [(''success'', JBool True),
                                     (''operation'', JStr (operation_name operation)),
                                     (''cell_count'', JInt (int (length cells)))]),
                          b\<lparr>contents_manager := Some cm'\<rparr>)))))"

definition insert_cell :: "bridge \<Rightarrow> params \<Rightarrow> string option \<Rightarrow> (error + json) \<times> bridge" where
  "insert_cell b ps notebook_id =
     (let cell_type = (case p_cell_type ps of None \<Rightarrow> ''code'' | Some t \<Rightarrow> t);
          source = (case p_source ps of None \<Rightarrow> [] | Some s \<Rightarrow> s)
      in case py_or notebook_id (p_path ps) of
           None \<Rightarrow> (Inl (ValueError ''Notebook path required''), b)
         | Some path \<Rightarrow>
             (case p_cell_index ps of
                None \<Rightarrow> (Inl (ValueError ''cell_index required''), b)
              | Some cell_index \<Rightarrow> modify_notebook b path (Insert cell_index cell_type source)))"

definition update_cell :: "bridge \<Rightarrow> params \<Rightarrow> string option \<Rightarrow> (error + json) \<times> bridge" where
  "update_cell b ps notebook_id =
     (case py_or notebook_id (p_path ps) of
        None \<Rightarrow> (Inl (ValueError ''Notebook path required''), b)
      | Some path \<Rightarrow>
          (case p_cell_index ps of
             None \<Rightarrow> (Inl (ValueError ''cell_index required''), b)
           | Some cell_index \<Rightarrow>
               (case p_source ps of
                  None \<Rightarrow> (Inl (ValueError ''source required''), b)
                | Some source \<Rightarrow> modify_notebook b path (Update cell_index source))))"

definition delete_cell :: "bridge \<Rightarrow> params \<Rightarrow> string option \<Rightarrow> (error + json) \<times> bridge" where
  "delete_cell b ps notebook_id =
     (case py_or notebook_id (p_path ps) of
        None \<Rightarrow> (Inl (ValueError ''Notebook path required''), b)
      | Some path \<Rightarrow>
          (case p_cell_index ps of
             None \<Rightarrow> (Inl (ValueError ''cell_index required''), b)
           | Some cell_index \<Rightarrow> modify_notebook b path (Delete cell_index)))"

definition move_cell :: "bridge \<Rightarrow> params \<Rightarrow> string option \<Rightarrow> (error + json) \<times> bridge" where
  "move_cell b ps notebook_id =
     (case py_or notebook_id (p_path ps) of
        None \<Rightarrow> (Inl (ValueError ''Notebook path required''), b)
      | Some path \<Rightarrow>
          (case p_from_index ps of
             None \<Rightarrow> (Inl (ValueError ''from_index and to_index required''), b)
           | Some from_index \<Rightarrow>
               (case p_to_index ps of
                  None \<Rightarrow> (Inl (ValueError ''from_index and to_index required''), b)
                | Some to_index \<Rightarrow> modify_notebook b path (Move from_index to_index))))"

section \<open>Kernel operations\<close>

text \<open>
  The first session whose path equals the requested one decides the kernel id (the loop
  breaks there, whatever that session's kernel entry holds).
\<close>

fun find_kernel_id :: "session list \<Rightarrow> string option \<Rightarrow> string option" where
  "find_kernel_id [] path = None"
| "find_kernel_id (s # sessions) path =
     (if session_path s = path then session_kernel_id s else find_kernel_id sessions path)"

text \<open>
  What the \<open>if\<close>/\<open>elif\<close> chain of \<open>execute_code\<close> does with one message of its own
  execution: leave the loop, append an output, or go on to the next message. Reading an entry
  that the message content lacks raises \<open>KeyError\<close>.
\<close>

datatype step = Break | Append dict | Continue

definition iopub_step :: "message \<Rightarrow> error + step" where
  "iopub_step msg =
     (if msg_type msg = ''status'' then
        (case dict_item (msg_content msg) ''execution_state'' of
           Inl e \<Rightarrow> Inl e
         | Inr st \<Rightarrow> if st = JStr ''idle'' then Inr Break else Inr Continue)
      else if msg_type msg = ''stream'' then
        (case dict_item (msg_content msg) ''name'' of
           Inl e \<Rightarrow> Inl e
         | Inr name \<Rightarrow>
             (case dict_item (msg_content msg) ''text'' of
                Inl e \<Rightarrow> Inl e
              | Inr text \<Rightarrow>
                  Inr (Append [(''output_type'', JStr ''stream''), (''name'', name), (''text'', text)])))
      else if msg_type msg = ''execute_result'' \<or> msg_type msg = ''display_data'' then
        (case dict_item (msg_content msg) ''data'' of
           Inl e \<Rightarrow> Inl e
         | Inr data \<Rightarrow>
             Inr (Append [(''output_type'', JStr (msg_type msg)), (''data'', data),
                          (''metadata'', dict_get_or (msg_content msg) ''metadata'' (JObj []))]))
      else if msg_type msg = ''error'' then
        (case dict_item (msg_content msg) ''ename'' of
           Inl e \<Rightarrow> Inl e
         | Inr ename \<Rightarrow>
             (case dict_item (msg_content msg) ''evalue'' of
                Inl e \<Rightarrow> Inl e
              | Inr evalue \<Rightarrow>
                  (case dict_item (msg_content msg) ''traceback'' of
                     Inl e \<Rightarrow> Inl e
                   | Inr traceback \<Rightarrow>
                       Inr (Append [(''output_type'', JStr ''error''), (''ename'', ename),
                                    (''evalue'', evalue), (''traceback'', traceback)]))))
      else Inr Continue)"

text \<open>
  The \<open>while True\<close> loop over the channel. It may never return (\<open>None\<close>): nothing bounds the
  number of messages that are neither idle nor a timeout. A \<open>TimeoutError\<close> and an idle
  status both leave the loop by \<open>break\<close>; any other exception leaves \<open>execute_code\<close>.
\<close>

partial_function (option) collect_outputs ::
  "poll stream \<Rightarrow> string \<Rightarrow> dict list \<Rightarrow> (error + dict list) option" where
  "collect_outputs ch msg_id outputs =
     (case shd ch of
        WaitTimeout \<Rightarrow> Some (Inr outputs)
      | PollFailure e \<Rightarrow> Some (Inl e)
      | Msg msg \<Rightarrow>
          if parent_msg_id msg \<noteq> Some msg_id then collect_outputs (stl ch) msg_id outputs
          else
            (case iopub_step msg of
               Inl e \<Rightarrow> Some (Inl e)
             | Inr Break \<Rightarrow> Some (Inr outputs)
             | Inr (Append entry) \<Rightarrow> collect_outputs (stl ch) msg_id (outputs @ [entry])
             | Inr Continue \<Rightarrow> collect_outputs (stl ch) msg_id outputs))"

text \<open>
  \<open>execute_code\<close>: list the sessions (through \<open>run_until_complete\<close>; the session manager
  holds the list it would return), resolve the kernel of the notebook, submit the code,
  collect the outputs of that execution. The only normal return is the one after the loop.
\<close>

definition execute_code :: "bridge \<Rightarrow> params \<Rightarrow> string option \<Rightarrow> ((error + json) \<times> bridge) option" where
  "execute_code b ps notebook_id =
     (let path = py_or notebook_id (p_path ps);
          no_kernel = RuntimeError (''No kernel found for notebook: '' @ str_opt path)
      in case p_code ps of
           None \<Rightarrow> Some (Inl (ValueError ''code required''), b)
         | Some code \<Rightarrow>
             (case session_manager b of
                None \<Rightarrow> Some (Inl (RuntimeError ''Kernel manager not available''), b)
              | Some sessions \<Rightarrow>
                  (case kernel_manager b of
                     None \<Rightarrow> Some (Inl (RuntimeError ''Kernel manager not available''), b)
                   | Some km \<Rightarrow>
                       (case run_until_complete b (Inr sessions) of
                          Inl e \<Rightarrow> Some (Inl e, b)
                        | Inr listed \<Rightarrow>
                            (case find_kernel_id listed path of
                               None \<Rightarrow> Some (Inl no_kernel, b)
                             | Some kernel_id \<Rightarrow>
                                 if kernel_id = [] then Some (Inl no_kernel, b)
                                 else
                                   (case km kernel_id of
                                      None \<Rightarrow> Some (Inl (HTTPError (''Kernel does not exist: '' @ kernel_id)), b)
                                    | Some cl \<Rightarrow>
                                        (case collect_outputs (iopub cl) (execute cl code) [] of
                                           None \<Rightarrow> None
                                         | Some (Inl e) \<Rightarrow> Some (Inl e, b)
                                         | Some (Inr outputs) \<Rightarrow>
                                             Some (Inr (JObj [(''outputs'', JList (map JObj outputs)),
                                                              (''success'', JBool True)]), b))))))))"

section \<open>The dispatcher\<close>

text \<open>
  An inbound request: \<open>id\<close>, \<open>action\<close>, \<open>params\<close> and \<open>notebook_id\<close>, each possibly absent;
  the wire format makes \<open>id\<close>, \<open>action\<close> and \<open>notebook_id\<close> strings. The socket is the
  messages written to it so far and whether it has been closed; \<open>_handle_request\<close> only
  writes.
\<close>

record envelope =
  env_id :: "string option"
  env_action :: "string option"
  env_params :: "params option"
  env_notebook_id :: "string option"

record socket =
  written :: "json list"
  closed :: bool

definition write_message :: "json \<Rightarrow> socket \<Rightarrow> socket" where
  "write_message m ws = ws\<lparr>written := written ws @ [m]\<rparr>"

definition send_response :: "string \<Rightarrow> json \<Rightarrow> socket \<Rightarrow> socket" where
  "send_response request_id data =
     write_message (JObj [(''id'', JStr request_id), (''type'', JStr ''response''),
                          (''success'', JBool True), (''data'', data)])"

definition send_error :: "string \<Rightarrow> string option \<Rightarrow> socket \<Rightarrow> socket" where
  "send_error message request_id =
     write_message (JObj [(''id'', (case request_id of None \<Rightarrow> JNull | Some i \<Rightarrow> JStr i)),
                          (''type'', JStr ''response''),
                          (''success'', JBool False), (''error'', JStr message)])"

text \<open>
  The keys of the handler map. Each key is bound to the bridge method of the same name, so
  the map is determined by the bridge's methods, taken by name. A method runs on the state of
  the bridge's collaborators and returns or raises, or does not come back.
\<close>

definition handler_names :: "string list" where
  "handler_names =
     [''list_notebooks'', ''get_active_notebook'', ''get_notebook_content'',
      ''get_cell'', ''insert_cell'', ''update_cell'', ''delete_cell'', ''move_cell'',
      ''execute_cell'', ''execute_code'', ''interrupt_kernel'', ''get_kernel_status'',
      ''list_variables'', ''get_cell_outputs'', ''clear_outputs'']"

type_synonym 'w handler = "params \<Rightarrow> string option \<Rightarrow> 'w \<Rightarrow> ((error + json) \<times> 'w) option"

definition handlers :: "(string \<Rightarrow> 'w handler) \<Rightarrow> string \<Rightarrow> 'w handler option" where
  "handlers methods action = (if action \<in> set handler_names then Some (methods action) else None)"

text \<open>
  The bridge methods are plain functions, not coroutines: \<open>await\<close> applied to the dict one of
  them returned raises \<open>TypeError\<close>, inside the same \<open>try\<close> as the call.
\<close>

definition await_result :: "json \<Rightarrow> error + json" where
  "await_result v = Inl (TypeError (''object dict can'' @ [CHR 0x27] @ ''t be used in ''
                                   @ [CHR 0x27] @ ''await'' @ [CHR 0x27] @ '' expression''))"

text \<open>
  \<open>_handle_request\<close>, with the fresh uuid that replaces an absent id. The result says
  whether an exception left the method, and gives the socket and the collaborators afterwards.
\<close>

definition handle_request ::
  "(string \<Rightarrow> 'w handler) \<Rightarrow> string \<Rightarrow> envelope \<Rightarrow> socket \<Rightarrow> 'w \<Rightarrow> ((error + unit) \<times> socket \<times> 'w) option" where
  "handle_request methods uuid4 data ws w =
     (let request_id = (case env_id data of None \<Rightarrow> uuid4 | Some i \<Rightarrow> i) in
      case env_action data of
        None \<Rightarrow> Some (Inr (), send_error ''Missing action'' (Some request_id) ws, w)
      | Some action \<Rightarrow>
          if action = [] then Some (Inr (), send_error ''Missing action'' (Some request_id) ws, w)
          else
            (case handlers methods action of
               None \<Rightarrow> Some (Inr (), send_error (''Unknown action: '' @ action) (Some request_id) ws, w)
             | Some handler \<Rightarrow>
                 (case handler (case env_params data of None \<Rightarrow> no_params | Some ps \<Rightarrow> ps)
                               (env_notebook_id data) w of
                    None \<Rightarrow> None
                  | Some (Inl e, w') \<Rightarrow> Some (Inr (), send_error (str_error e) (Some request_id) ws, w')
                  | Some (Inr returned, w') \<Rightarrow>
                      (case await_result returned of
                         Inl e \<Rightarrow> Some (Inr (), send_error (str_error e) (Some request_id) ws, w')
                       | Inr result \<Rightarrow> Some (Inr (), send_response request_id result ws, w')))))"

section \<open>The aggregation as the specification describes it\<close>

text \<open>
  The specification speaks of events: an event belongs to the execution when its parent
  correlation id is the submitted one; the idle event is a status event reporting \<open>idle\<close>;
  stream, result, display and error events each contribute one output entry made of the
  event's own fields, the entry of a result or display event keeping its kind. An event is
  well formed when its content holds the fields the kernel protocol gives its kind.
\<close>

definition same_execution :: "string \<Rightarrow> message \<Rightarrow> bool" where
  "same_execution msg_id m = (parent_msg_id m = Some msg_id)"

definition is_idle :: "message \<Rightarrow> bool" where
  "is_idle m = (msg_type m = ''status'' \<and> dict_get (msg_content m) ''execution_state'' = Some (JStr ''idle''))"

definition is_output :: "message \<Rightarrow> bool" where
  "is_output m = (msg_type m \<in> {''stream'', ''execute_result'', ''display_data'', ''error''})"

definition has_fields :: "message \<Rightarrow> string list \<Rightarrow> bool" where
  "has_fields m ks = list_all (\<lambda>k. dict_get (msg_content m) k \<noteq> None) ks"

definition well_formed :: "message \<Rightarrow> bool" where
  "well_formed m =
     (if msg_type m = ''status'' then has_fields m [''execution_state'']
      else if msg_type m = ''stream'' then has_fields m [''name'', ''text'']
      else if msg_type m = ''execute_result'' \<or> msg_type m = ''display_data'' then has_fields m [''data'']
      else if msg_type m = ''error'' then has_fields m [''ename'', ''evalue'', ''traceback'']
      else True)"

definition field :: "message \<Rightarrow> string \<Rightarrow> json" where
  "field m k = dict_get_or (msg_content m) k JNull"

definition output_entry :: "message \<Rightarrow> dict" where
  "output_entry m =
     (if msg_type m = ''stream'' then
        [(''output_type'', JStr ''stream''), (''name'', field m ''name''), (''text'', field m ''text'')]
      else if msg_type m = ''error'' then
        [(''output_type'', JStr ''error''), (''ename'', field m ''ename''),
         (''evalue'', field m ''evalue''), (''traceback'', field m ''traceback'')]
      else
        [(''output_type'', JStr (msg_type m)), (''data'', field m ''data''),
         (''metadata'', dict_get_or (msg_content m) ''metadata'' (JObj []))])"

text \<open>The outputs of an execution over the events seen: one entry per output event of that
  execution, in arrival order.\<close>

definition outputs_of :: "string \<Rightarrow> message list \<Rightarrow> dict list" where
  "outputs_of msg_id ms = map output_entry (filter (\<lambda>m. same_execution msg_id m \<and> is_output m) ms)"

section \<open>A concrete notebook server\<close>

text \<open>
  A store with one notebook of two cells, and one session binding it to a kernel whose
  broadcast channel is given. \<open>example_bridge\<close> is the bridge as \<open>_handle_request\<close> builds
  it: that method is a coroutine, so the server's event loop is running around every bridge
  method it calls. \<open>direct_bridge\<close> is the same bridge called from plain synchronous code,
  with no loop running.
\<close>

definition example_cells :: "dict list" where
  "example_cells =
     [[(''cell_type'', JStr ''code''), (''source'', JStr ''x = 1''), (''metadata'', JObj []),
       (''outputs'', JList []), (''execution_count'', JNull)],
      [(''cell_type'', JStr ''markdown''), (''source'', JStr ''# Title''), (''metadata'', JObj [])]]"

definition example_content :: content where
  "example_content = \<lparr>cells_entry = Some example_cells, other_entries = [(''nbformat'', JInt 4)]\<rparr>"

definition example_contents :: contents where
  "example_contents = [''nb.ipynb'' \<mapsto> example_content]"

definition example_bridge :: "poll stream \<Rightarrow> bridge" where
  "example_bridge ch =
     \<lparr>contents_manager = Some example_contents,
      session_manager = Some [\<lparr>session_path = Some ''nb.ipynb'', session_kernel_id = Some ''k1''\<rparr>],
      kernel_manager = Some [''k1'' \<mapsto> \<lparr>execute = (\<lambda>code. ''m1''), iopub = ch\<rparr>],
      loop_running = True\<rparr>"

definition direct_bridge :: "poll stream \<Rightarrow> bridge" where
  "direct_bridge ch = (example_bridge ch)\<lparr>loop_running := False\<rparr>"

definition quiet_bridge :: bridge where
  "quiet_bridge = example_bridge (sconst WaitTimeout)"

text \<open>Events of the execution \<open>m1\<close>, and one of another execution.\<close>

definition stream_event :: message where
  "stream_event = \<lparr>msg_type = ''stream'', parent_msg_id = Some ''m1'',
                    msg_content = [(''name'', JStr ''stdout''), (''text'', JStr [CHR ''1'', CHR 0x0A])]\<rparr>"

definition result_event :: message where
  "result_event = \<lparr>msg_type = ''execute_result'', parent_msg_id = Some ''m1'',
                    msg_content = [(''data'', JObj [(''text/plain'', JStr ''1'')]), (''metadata'', JObj []),
                                   (''execution_count'', JInt 1)]\<rparr>"

definition error_event :: message where
  "error_event = \<lparr>msg_type = ''error'', parent_msg_id = Some ''m1'',
                   msg_content = [(''ename'', JStr ''ZeroDivisionError''),
                                  (''evalue'', JStr ''division by zero''),
                                  (''traceback'', JList [JStr ''Traceback (most recent call last)''])]\<rparr>"

definition busy_event :: message where
  "busy_event = \<lparr>msg_type = ''status'', parent_msg_id = Some ''m1'',
                  msg_content = [(''execution_state'', JStr ''busy'')]\<rparr>"

definition idle_event :: message where
  "idle_event = \<lparr>msg_type = ''status'', parent_msg_id = Some ''m1'',
                  msg_content = [(''execution_state'', JStr ''idle'')]\<rparr>"

definition foreign_event :: message where
  "foreign_event = \<lparr>msg_type = ''stream'', parent_msg_id = Some ''m0'',
                     msg_content = [(''name'', JStr ''stderr''), (''text'', JStr ''noise'')]\<rparr>"

text \<open>
  Three channels: the run of the specification's example, a run that meets an error and a
  foreign event before it settles, and a run whose kernel falls silent after some output, so
  that every further wait of the client times out.
\<close>

definition run_code :: params where
  "run_code = no_params\<lparr>p_code := Some ''1''\<rparr>"


definition failing_channel :: "poll stream" where
  "failing_channel =
     Msg busy_event ## Msg foreign_event ## Msg error_event ## Msg idle_event ## sconst WaitTimeout"

definition silent_channel :: "poll stream" where
  "silent_channel =
     Msg busy_event ## Msg stream_event ## Msg foreign_event
       ## PollFailure Empty ## sconst (PollFailure Empty)"

definition stream_entry :: dict where
  "stream_entry = [(''output_type'', JStr ''stream''), (''name'', JStr ''stdout''),
                   (''text'', JStr [CHR ''1'', CHR 0x0A])]"

definition result_entry :: dict where
  "result_entry = [(''output_type'', JStr ''execute_result''),
                   (''data'', JObj [(''text/plain'', JStr ''1'')]), (''metadata'', JObj [])]"

definition error_entry :: dict where
  "error_entry = [(''output_type'', JStr ''error''), (''ename'', JStr ''ZeroDivisionError''),
                  (''evalue'', JStr ''division by zero''),
                  (''traceback'', JList [JStr ''Traceback (most recent call last)''])]"

text \<open>
  The bridge methods embedded above under their handler names; \<open>others\<close> stands for the
  remaining methods. \<open>_handle_request\<close> is a coroutine and calls the method from its own
  body, so the method runs with the server's event loop running. Three requests: one for a
  known action whose handler raises, one for an action outside the map, one with an empty
  action.
\<close>

definition in_coroutine :: "bridge \<Rightarrow> bridge" where
  "in_coroutine b = b\<lparr>loop_running := True\<rparr>"

definition bridge_methods :: "(string \<Rightarrow> bridge handler) \<Rightarrow> string \<Rightarrow> bridge handler" where
  "bridge_methods others name =
     (if name = ''get_cell'' then (\<lambda>ps notebook_id b. Some (get_cell (in_coroutine b) ps notebook_id))
      else if name = ''insert_cell'' then (\<lambda>ps notebook_id b. Some (insert_cell (in_coroutine b) ps notebook_id))
      else if name = ''update_cell'' then (\<lambda>ps notebook_id b. Some (update_cell (in_coroutine b) ps notebook_id))
      else if name = ''delete_cell'' then (\<lambda>ps notebook_id b. Some (delete_cell (in_coroutine b) ps notebook_id))
      else if name = ''move_cell'' then (\<lambda>ps notebook_id b. Some (move_cell (in_coroutine b) ps notebook_id))
      else if name = ''execute_code'' then (\<lambda>ps notebook_id b. execute_code (in_coroutine b) ps notebook_id)
      else others name)"

definition unavailable :: "string \<Rightarrow> bridge handler" where
  "unavailable name ps notebook_id b = Some (Inl (RuntimeError ''Kernel manager not available''), b)"

definition get_cell_request :: envelope where
  "get_cell_request = \<lparr>env_id = Some ''7'', env_action = Some ''get_cell'', env_params = None,
                        env_notebook_id = Some ''nb.ipynb''\<rparr>"

definition rename_request :: envelope where
  "rename_request = \<lparr>env_id = None, env_action = Some ''rename_notebook'', env_params = None,
                      env_notebook_id = Some ''nb.ipynb''\<rparr>"

definition empty_action_request :: envelope where
  "empty_action_request = \<lparr>env_id = Some ''8'', env_action = Some [], env_params = None,
                            env_notebook_id = None\<rparr>"

definition fresh_socket :: socket where
  "fresh_socket = \<lparr>written = [], closed = False\<rparr>"

definition error_response :: "string \<Rightarrow> string \<Rightarrow> json" where
  "error_response request_id message =
     JObj [(''id'', JStr request_id), (''type'', JStr ''response''),
           (''success'', JBool False), (''error'', JStr message)]"

text \<open>
  Requests a tool sends for the notebook of two cells: read the cell at index 2, move cell 1
  onto itself, insert at the front and at the end, insert far beyond the end, update cell 1,
  and run code.
\<close>

definition read_request :: envelope where
  "read_request = \<lparr>env_id = Some ''9'', env_action = Some ''get_cell'',
                    env_params = Some (no_params\<lparr>p_cell_index := Some 2\<rparr>),
                    env_notebook_id = Some ''nb.ipynb''\<rparr>"

definition move_request :: envelope where
  "move_request = \<lparr>env_id = Some ''10'', env_action = Some ''move_cell'',
                    env_params = Some (no_params\<lparr>p_from_index := Some 1, p_to_index := Some 1\<rparr>),
                    env_notebook_id = Some ''nb.ipynb''\<rparr>"

definition prepend_request :: envelope where
  "prepend_request = \<lparr>env_id = Some ''11'', env_action = Some ''insert_cell'',
                       env_params = Some (no_params\<lparr>p_cell_index := Some 0, p_cell_type := Some ''code'',
                                                     p_source := Some ''y''\<rparr>),
                       env_notebook_id = Some ''nb.ipynb''\<rparr>"

definition append_request :: envelope where
  "append_request = \<lparr>env_id = Some ''12'', env_action = Some ''insert_cell'',
                      env_params = Some (no_params\<lparr>p_cell_index := Some 2, p_cell_type := Some ''code'',
                                                    p_source := Some ''y''\<rparr>),
                      env_notebook_id = Some ''nb.ipynb''\<rparr>"


definition execute_request :: envelope where
  "execute_request = \<lparr>env_id = Some ''14'', env_action = Some ''execute_code'',
                       env_params = Some run_code, env_notebook_id = Some ''nb.ipynb''\<rparr>"

definition huge_index :: int where
  "huge_index = 2 ^ 63"

definition quiet_direct_bridge :: bridge where
  "quiet_direct_bridge = direct_bridge (sconst WaitTimeout)"

definition loop_error_response :: "string \<Rightarrow> json" where
  "loop_error_response request_id =
     error_response request_id ''Cannot run the event loop while another loop is running''"

section \<open>Properties of the cell operations\<close>

subsection \<open>List primitives, the event loop and the load-edit-save skeleton\<close>

lemma py_insert_front: "py_insert xs 0 x = Inr (x # xs)"
  by (simp add: py_insert_def fits_ssize_t_def)

lemma py_insert_back:
  "i \<ge> int (length xs) \<Longrightarrow> i < 2 ^ 63 \<Longrightarrow> py_insert xs i x = Inr (xs @ [x])"
  by (simp add: py_insert_def fits_ssize_t_def Let_def min_def)

lemma py_insert_overflow:
  "i \<ge> 2 ^ 63 \<Longrightarrow>
     py_insert xs i x = Inl (OverflowError ''Python int too large to convert to C ssize_t'')"
  by (simp add: py_insert_def fits_ssize_t_def)

lemma py_index_in_range: "0 \<le> i \<Longrightarrow> i < int (length xs) \<Longrightarrow> py_index xs i = Some (nat i)"
  by (simp add: py_index_def)

lemma py_pop_insert_same:
  assumes "0 \<le> k" "k < int (length xs)" "k < 2 ^ 63"
  shows "py_pop xs k = Inr (xs ! nat k, take (nat k) xs @ drop (Suc (nat k)) xs)"
    and "py_insert (take (nat k) xs @ drop (Suc (nat k)) xs) k (xs ! nat k) = Inr xs"
proof -
  show "py_pop xs k = Inr (xs ! nat k, take (nat k) xs @ drop (Suc (nat k)) xs)"
    using assms by (simp add: py_pop_def py_index_in_range)
  have n: "nat k < length xs" using assms by linarith
  have "k \<le> int (length xs) - 1" using assms by simp
  then have m: "min k (int (length (take (nat k) xs @ drop (Suc (nat k)) xs))) = k"
    using n by (simp add: min_def)
  have f: "fits_ssize_t k" using assms by (simp add: fits_ssize_t_def)
  show "py_insert (take (nat k) xs @ drop (Suc (nat k)) xs) k (xs ! nat k) = Inr xs"
    unfolding py_insert_def Let_def using assms n m f
    by (simp add: min_absorb1 id_take_nth_drop [symmetric] Cons_nth_drop_Suc)
qed

lemma dict_get_dict_set:
  "dict_get (dict_set d k v) k' = (if k' = k then Some v else dict_get d k')"
  by (induction d) (auto simp: dict_get_def)

text \<open>With a loop already running, nothing is loaded, edited or saved.\<close>

lemma modify_notebook_in_loop:
  assumes "loop_running b" and "contents_manager b = Some cm"
  shows "modify_notebook b path operation = (Inl loop_error, b)"
  using assms by (simp add: modify_notebook_def run_until_complete_def)

lemma get_notebook_content_in_loop:
  assumes "loop_running b" and "contents_manager b = Some cm"
    and "py_or notebook_id (p_path ps) = Some path" and "path \<noteq> []"
  shows "get_notebook_content b ps notebook_id = Inl loop_error"
  using assms by (simp add: get_notebook_content_def run_until_complete_def)

text \<open>Called with no loop running, the skeleton loads, edits and saves.\<close>

lemma modify_notebook_direct:
  assumes "\<not> loop_running b" and "contents_manager b = Some cm" and "cm path = Some c"
  shows "modify_notebook b path operation =
     (case perform_operation operation (content_cells c) of
        Inl e \<Rightarrow> (Inl e, b)
      | Inr cells \<Rightarrow>
          (Inr (JObj [(''success'', JBool True),
                      (''operation'', JStr (operation_name operation)),
                      (''cell_count'', JInt (int (length cells)))]),
           b\<lparr>contents_manager := Some (cm(path \<mapsto> c\<lparr>cells_entry := Some cells\<rparr>))\<rparr>))"
  using assms
  by (simp add: modify_notebook_def run_until_complete_def cm_get_def cm_save_def split: sum.splits)

text \<open>How a request for a known action whose method raises is answered.\<close>

lemma send_error_written:
  "send_error message (Some request_id) ws = ws\<lparr>written := written ws @ [error_response request_id message]\<rparr>"
  by (simp add: send_error_def write_message_def error_response_def)

lemma dispatch_raised:
  assumes "env_action data = Some action" and "action \<in> set handler_names"
    and "env_id data = Some request_id" and "env_params data = Some ps"
    and "methods action ps (env_notebook_id data) w = Some (Inl e, w')"
  shows "handle_request methods fresh data ws w =
           Some (Inr (), ws\<lparr>written := written ws @ [error_response request_id (str_error e)]\<rparr>, w')"
proof -
  have "action \<noteq> []" using assms(2) by (auto simp: handler_names_def)
  then show ?thesis
    using assms by (simp add: handle_request_def handlers_def send_error_written)
qed

lemmas example_server =
  run_code_def no_params_def py_or_def example_bridge_def direct_bridge_def quiet_bridge_def
  quiet_direct_bridge_def example_contents_def example_content_def example_cells_def
  content_cells_def

lemma quiet_bridge_facts:
  "loop_running quiet_bridge" "contents_manager quiet_bridge = Some example_contents"
  "in_coroutine quiet_bridge = quiet_bridge"
  "\<not> loop_running quiet_direct_bridge" "contents_manager quiet_direct_bridge = Some example_contents"
  "example_contents ''nb.ipynb'' = Some example_content"
  "content_cells example_content = example_cells" "length example_cells = 2"
  by (simp_all add: example_server in_coroutine_def)

subsection \<open>Reading a cell\<close>

lemma get_cell_index_out_of_range_direct:
  assumes "\<not> loop_running b"
    and "py_or notebook_id (p_path ps) = Some path" and "path \<noteq> []"
    and "contents_manager b = Some cm" and "cm path = Some c"
    and "p_cell_index ps = Some cell_index"
    and "cell_index < 0 \<or> cell_index \<ge> int (length (content_cells c))"
  shows "get_cell b ps notebook_id =
           (Inl (IndexError (''Cell index '' @ str_int cell_index @ '' out of range (0-''
                             @ str_int (int (length (content_cells c)) - 1) @ '')'')), b)"
  using assms
  by (auto simp: get_cell_def get_notebook_content_def run_until_complete_def cm_get_def)

text \<open>
  Claim C5 asks that \<open>get_cell\<close> with an index outside \<open>[0, n)\<close> fail with the out-of-range
  \<open>IndexError\<close> and with no unrelated error, the notebook unchanged. Called with no loop
  running it does (for the notebook of two cells and index 2, the last equation below, an
  instance of the lemma above). Called through \<open>_handle_request\<close>, the only way into the bridge, it fails
  before the notebook is loaded: creating a loop and running it inside the server's running
  loop raises \<open>RuntimeError\<close>, and the request is answered with that unrelated message. The
  notebook is unchanged in both cases.
\<close>

theorem get_cell_out_of_range_dispatched:
  "get_cell quiet_bridge (no_params\<lparr>p_cell_index := Some 2\<rparr>) (Some ''nb.ipynb'') =
     (Inl loop_error, quiet_bridge)
   \<and> handle_request (bridge_methods unavailable) ''u-1'' read_request fresh_socket quiet_bridge =
     Some (Inr (), \<lparr>written = [loop_error_response ''9''], closed = False\<rparr>, quiet_bridge)
   \<and> get_cell quiet_direct_bridge (no_params\<lparr>p_cell_index := Some 2\<rparr>) (Some ''nb.ipynb'') =
     (Inl (IndexError ''Cell index 2 out of range (0-1)''), quiet_direct_bridge)"
proof -
  have raised: "get_cell quiet_bridge (no_params\<lparr>p_cell_index := Some 2\<rparr>) (Some ''nb.ipynb'') =
     (Inl loop_error, quiet_bridge)"
    using get_notebook_content_in_loop [of quiet_bridge example_contents "Some ''nb.ipynb''"
            "no_params\<lparr>p_cell_index := Some 2\<rparr>" "''nb.ipynb''"]
    by (simp add: get_cell_def quiet_bridge_facts py_or_def no_params_def)
  have "handle_request (bridge_methods unavailable) ''u-1'' read_request fresh_socket quiet_bridge =
     Some (Inr (), fresh_socket\<lparr>written := written fresh_socket @ [error_response ''9'' (str_error loop_error)]\<rparr>,
           quiet_bridge)"
    by (rule dispatch_raised [where action = "''get_cell''" and ps = "no_params\<lparr>p_cell_index := Some 2\<rparr>"])
       (simp_all add: read_request_def handler_names_def bridge_methods_def quiet_bridge_facts raised)
  moreover have "get_cell quiet_direct_bridge (no_params\<lparr>p_cell_index := Some 2\<rparr>) (Some ''nb.ipynb'') =
     (Inl (IndexError ''Cell index 2 out of range (0-1)''), quiet_direct_bridge)"
    using get_cell_index_out_of_range_direct [of quiet_direct_bridge "Some ''nb.ipynb''"
            "no_params\<lparr>p_cell_index := Some 2\<rparr>" "''nb.ipynb''" example_contents example_content 2]
    by (simp add: quiet_bridge_facts py_or_def no_params_def str_int_def str_nat.simps)
  ultimately show ?thesis
    using raised by (simp add: fresh_socket_def loop_error_response_def loop_error_def)
qed

subsection \<open>Moving a cell onto itself\<close>

lemma move_cell_same_index_direct:
  assumes "\<not> loop_running b"
    and "py_or notebook_id (p_path ps) = Some path"
    and "contents_manager b = Some cm" and "cm path = Some c"
    and "p_from_index ps = Some k" and "p_to_index ps = Some k"
    and "0 \<le> k" and "k < int (length (content_cells c))" and "k < 2 ^ 63"
  shows "move_cell b ps notebook_id =
           (Inr (JObj [(''success'', JBool True), (''operation'', JStr ''move''),
                       (''cell_count'', JInt (int (length (content_cells c))))]), b)"
proof -
  obtain cs where cs: "cells_entry c = Some cs"
    using assms(7,8) by (cases "cells_entry c") (auto simp: content_cells_def)
  then have cc: "content_cells c = cs" by (simp add: content_cells_def)
  have perf: "perform_operation (Move k k) (content_cells c) = Inr (content_cells c)"
    using assms(7,8,9) py_pop_insert_same [of k "content_cells c"] by simp
  have "c\<lparr>cells_entry := Some (content_cells c)\<rparr> = c" using cs cc by simp
  moreover have "cm(path \<mapsto> c) = cm" using assms(4) by (rule map_upd_triv)
  moreover have "b\<lparr>contents_manager := Some cm\<rparr> = b" using assms(3) by simp
  ultimately show ?thesis
    using assms(2,5,6) modify_notebook_direct [OF assms(1,3,4), of "Move k k"] perf
    by (simp add: move_cell_def)
qed

text \<open>
  Claim C7 asks that \<open>move_cell\<close> with \<open>from_index = to_index = k\<close>, \<open>0 \<le> k < n\<close>, succeed
  and leave the cells as they are. Called with no loop running it does (last equation, an
  instance of the lemma above). Called through \<open>_handle_request\<close>, the only way into the bridge, it does not
  succeed: \<open>_modify_notebook\<close> raises \<open>RuntimeError\<close> at its first \<open>run_until_complete\<close>,
  before the cell is popped, and the request is answered with \<open>success = False\<close>. The cells
  are unchanged because nothing was saved.
\<close>

theorem move_cell_same_index_dispatched:
  "move_cell quiet_bridge (no_params\<lparr>p_from_index := Some 1, p_to_index := Some 1\<rparr>) (Some ''nb.ipynb'') =
     (Inl loop_error, quiet_bridge)
   \<and> handle_request (bridge_methods unavailable) ''u-1'' move_request fresh_socket quiet_bridge =
     Some (Inr (), \<lparr>written = [loop_error_response ''10''], closed = False\<rparr>, quiet_bridge)
   \<and> move_cell quiet_direct_bridge (no_params\<lparr>p_from_index := Some 1, p_to_index := Some 1\<rparr>)
       (Some ''nb.ipynb'') =
     (Inr (JObj [(''success'', JBool True), (''operation'', JStr ''move''), (''cell_count'', JInt 2)]),
      quiet_direct_bridge)"
proof -
  have raised: "move_cell quiet_bridge (no_params\<lparr>p_from_index := Some 1, p_to_index := Some 1\<rparr>)
       (Some ''nb.ipynb'') = (Inl loop_error, quiet_bridge)"
    using modify_notebook_in_loop [of quiet_bridge example_contents "''nb.ipynb''" "Move 1 1"]
    by (simp add: move_cell_def quiet_bridge_facts py_or_def no_params_def)
  have "handle_request (bridge_methods unavailable) ''u-1'' move_request fresh_socket quiet_bridge =
     Some (Inr (), fresh_socket\<lparr>written := written fresh_socket @ [error_response ''10'' (str_error loop_error)]\<rparr>,
           quiet_bridge)"
    by (rule dispatch_raised [where action = "''move_cell''"
              and ps = "no_params\<lparr>p_from_index := Some 1, p_to_index := Some 1\<rparr>"])
       (simp_all add: move_request_def handler_names_def bridge_methods_def quiet_bridge_facts raised)
  moreover have "move_cell quiet_direct_bridge (no_params\<lparr>p_from_index := Some 1, p_to_index := Some 1\<rparr>)
       (Some ''nb.ipynb'') =
     (Inr (JObj [(''success'', JBool True), (''operation'', JStr ''move''), (''cell_count'', JInt 2)]),
      quiet_direct_bridge)"
    using move_cell_same_index_direct [of quiet_direct_bridge "Some ''nb.ipynb''"
            "no_params\<lparr>p_from_index := Some 1, p_to_index := Some 1\<rparr>" "''nb.ipynb''"
            example_contents example_content 1]
    by (simp add: quiet_bridge_facts py_or_def no_params_def)
  ultimately show ?thesis
    using raised by (simp add: fresh_socket_def loop_error_response_def loop_error_def)
qed

subsection \<open>Inserting at the ends\<close>

lemma insert_cell_at_ends_direct:
  assumes "\<not> loop_running b"
    and "py_or notebook_id (p_path ps) = Some path"
    and "contents_manager b = Some cm" and "cm path = Some c"
    and "p_cell_index ps = Some cell_index"
    and "cell_index = 0 \<or> cell_index = int (length (content_cells c))"
    and "int (length (content_cells c)) < 2 ^ 63"
    and "cell = new_cell (case p_cell_type ps of None \<Rightarrow> ''code'' | Some t \<Rightarrow> t)
                         (case p_source ps of None \<Rightarrow> [] | Some s \<Rightarrow> s)"
  shows "insert_cell b ps notebook_id =
           (Inr (JObj [(''success'', JBool True), (''operation'', JStr ''insert''),
                       (''cell_count'', JInt (int (length (content_cells c)) + 1))]),
            b\<lparr>contents_manager := Some (cm(path \<mapsto> c\<lparr>cells_entry :=
                 Some (if cell_index = 0 then cell # content_cells c else content_cells c @ [cell])\<rparr>))\<rparr>)"
proof (cases "cell_index = 0")
  case True
  then show ?thesis
    using assms(2,5,8) modify_notebook_direct [OF assms(1,3,4)]
    by (simp add: insert_cell_def py_insert_front)
next
  case False
  then have "cell_index = int (length (content_cells c))" using assms(6) by simp
  then show ?thesis
    using False assms(2,5,7,8) modify_notebook_direct [OF assms(1,3,4)]
    by (simp add: insert_cell_def py_insert_back)
qed

text \<open>
  Claim C8 asks that \<open>insert_cell\<close> with \<open>cell_index = len(cells)\<close> append the new cell and
  with \<open>cell_index = 0\<close> prepend it, the old cells keeping their order, and that it return
  \<open>cell_count = len(cells) + 1\<close>. Called with no loop running it does (last two equations,
  instances of the lemma above). Called through \<open>_handle_request\<close>, the only way into the bridge, it raises
  \<open>RuntimeError\<close> at the first \<open>run_until_complete\<close> of \<open>_modify_notebook\<close>: no cell is
  inserted, nothing is saved, no \<open>cell_count\<close> is returned, and both requests are answered
  with \<open>success = False\<close>.
\<close>

theorem insert_cell_at_ends_dispatched:
  "insert_cell quiet_bridge (no_params\<lparr>p_cell_index := Some 0, p_cell_type := Some ''code'', p_source := Some ''y''\<rparr>)
       (Some ''nb.ipynb'') = (Inl loop_error, quiet_bridge)
   \<and> handle_request (bridge_methods unavailable) ''u-1'' prepend_request fresh_socket quiet_bridge =
     Some (Inr (), \<lparr>written = [loop_error_response ''11''], closed = False\<rparr>, quiet_bridge)
   \<and> handle_request (bridge_methods unavailable) ''u-1'' append_request fresh_socket quiet_bridge =
     Some (Inr (), \<lparr>written = [loop_error_response ''12''], closed = False\<rparr>, quiet_bridge)
   \<and> insert_cell quiet_direct_bridge
       (no_params\<lparr>p_cell_index := Some 0, p_cell_type := Some ''code'', p_source := Some ''y''\<rparr>)
       (Some ''nb.ipynb'') =
     (Inr (JObj [(''success'', JBool True), (''operation'', JStr ''insert''), (''cell_count'', JInt 3)]),
      quiet_direct_bridge\<lparr>contents_manager := Some (example_contents(''nb.ipynb'' \<mapsto>
         example_content\<lparr>cells_entry := Some (new_cell ''code'' ''y'' # example_cells)\<rparr>))\<rparr>)
   \<and> insert_cell quiet_direct_bridge
       (no_params\<lparr>p_cell_index := Some 2, p_cell_type := Some ''code'', p_source := Some ''y''\<rparr>)
       (Some ''nb.ipynb'') =
     (Inr (JObj [(''success'', JBool True), (''operation'', JStr ''insert''), (''cell_count'', JInt 3)]),
      quiet_direct_bridge\<lparr>contents_manager := Some (example_contents(''nb.ipynb'' \<mapsto>
         example_content\<lparr>cells_entry := Some (example_cells @ [new_cell ''code'' ''y''])\<rparr>))\<rparr>)"
proof -
  have raised: "insert_cell quiet_bridge
       (no_params\<lparr>p_cell_index := Some i, p_cell_type := Some ''code'', p_source := Some ''y''\<rparr>)
       (Some ''nb.ipynb'') = (Inl loop_error, quiet_bridge)" for i
    using modify_notebook_in_loop [of quiet_bridge example_contents "''nb.ipynb''" "Insert i ''code'' ''y''"]
    by (simp add: insert_cell_def quiet_bridge_facts py_or_def no_params_def)
  have "handle_request (bridge_methods unavailable) ''u-1'' prepend_request fresh_socket quiet_bridge =
     Some (Inr (), fresh_socket\<lparr>written := written fresh_socket @ [error_response ''11'' (str_error loop_error)]\<rparr>,
           quiet_bridge)"
    by (rule dispatch_raised [where action = "''insert_cell''"
              and ps = "no_params\<lparr>p_cell_index := Some 0, p_cell_type := Some ''code'', p_source := Some ''y''\<rparr>"])
       (simp_all add: prepend_request_def handler_names_def bridge_methods_def quiet_bridge_facts raised)
  moreover have "handle_request (bridge_methods unavailable) ''u-1'' append_request fresh_socket quiet_bridge =
     Some (Inr (), fresh_socket\<lparr>written := written fresh_socket @ [error_response ''12'' (str_error loop_error)]\<rparr>,
           quiet_bridge)"
    by (rule dispatch_raised [where action = "''insert_cell''"
              and ps = "no_params\<lparr>p_cell_index := Some 2, p_cell_type := Some ''code'', p_source := Some ''y''\<rparr>"])
       (simp_all add: append_request_def handler_names_def bridge_methods_def quiet_bridge_facts raised)
  moreover have "insert_cell quiet_direct_bridge
       (no_params\<lparr>p_cell_index := Some 0, p_cell_type := Some ''code'', p_source := Some ''y''\<rparr>)
       (Some ''nb.ipynb'') =
     (Inr (JObj [(''success'', JBool True), (''operation'', JStr ''insert''), (''cell_count'', JInt 3)]),
      quiet_direct_bridge\<lparr>contents_manager := Some (example_contents(''nb.ipynb'' \<mapsto>
         example_content\<lparr>cells_entry := Some (new_cell ''code'' ''y'' # example_cells)\<rparr>))\<rparr>)"
    using insert_cell_at_ends_direct [of quiet_direct_bridge "Some ''nb.ipynb''"
            "no_params\<lparr>p_cell_index := Some 0, p_cell_type := Some ''code'', p_source := Some ''y''\<rparr>"
            "''nb.ipynb''" example_contents example_content 0 "new_cell ''code'' ''y''"]
    by (simp add: quiet_bridge_facts py_or_def no_params_def)
  moreover have "insert_cell quiet_direct_bridge
       (no_params\<lparr>p_cell_index := Some 2, p_cell_type := Some ''code'', p_source := Some ''y''\<rparr>)
       (Some ''nb.ipynb'') =
     (Inr (JObj [(''success'', JBool True), (''operation'', JStr ''insert''), (''cell_count'', JInt 3)]),
      quiet_direct_bridge\<lparr>contents_manager := Some (example_contents(''nb.ipynb'' \<mapsto>
         example_content\<lparr>cells_entry := Some (example_cells @ [new_cell ''code'' ''y''])\<rparr>))\<rparr>)"
    using insert_cell_at_ends_direct [of quiet_direct_bridge "Some ''nb.ipynb''"
            "no_params\<lparr>p_cell_index := Some 2, p_cell_type := Some ''code'', p_source := Some ''y''\<rparr>"
            "''nb.ipynb''" example_contents example_content 2 "new_cell ''code'' ''y''"]
    by (simp add: quiet_bridge_facts py_or_def no_params_def)
  ultimately show ?thesis
    using raised [of 0] by (simp add: fresh_socket_def loop_error_response_def loop_error_def)
qed

subsection \<open>Indices beyond the end\<close>

text \<open>
  Claim C9 as stated promises that \<open>insert_cell\<close> succeeds for every \<open>cell_index > n\<close>.
  \<open>insert_cell\<close> has no guard of its own and relies on \<open>list.insert\<close>, which clamps only
  an index that fits a signed 64-bit integer: for \<open>2 ^ 63\<close>, even when called with no loop
  running, \<open>insert_cell\<close> raises \<open>OverflowError\<close> and saves nothing.
\<close>

theorem insert_huge_index_counterexample:
  "int (length example_cells) < huge_index
   \<and> insert_cell quiet_direct_bridge
       (no_params\<lparr>p_cell_index := Some huge_index, p_cell_type := Some ''code'', p_source := Some ''y''\<rparr>)
       (Some ''nb.ipynb'') =
     (Inl (OverflowError ''Python int too large to convert to C ssize_t''), quiet_direct_bridge)"
proof -
  have "perform_operation (Insert huge_index ''code'' ''y'') example_cells =
          Inl (OverflowError ''Python int too large to convert to C ssize_t'')"
    by (simp add: py_insert_overflow huge_index_def)
  then show ?thesis
    using modify_notebook_direct [of quiet_direct_bridge example_contents "''nb.ipynb''" example_content
            "Insert huge_index ''code'' ''y''"]
    by (simp add: insert_cell_def quiet_bridge_facts py_or_def no_params_def huge_index_def)
qed

text \<open>
  Claim C9, amended. Take a notebook of \<open>n\<close> cells and call the handlers with no event loop
  already running in the calling thread. \<open>insert_cell\<close> with \<open>n < cell_index < 2 ^ 63\<close>
  does not fail: it appends the new cell and returns \<open>cell_count = n + 1\<close>; with
  \<open>cell_index \<ge> 2 ^ 63\<close> it raises \<open>OverflowError\<close> and saves nothing. In contrast,
  \<open>update_cell\<close> and \<open>delete_cell\<close> raise \<open>IndexError\<close> for an index outside \<open>[0, n)\<close>,
  and \<open>move_cell\<close> does for \<open>from_index\<close> outside \<open>[0, n)\<close> or \<open>to_index\<close> outside
  \<open>[0, n]\<close>, leaving the store as it was. Each handler is taken with the parameters it
  reads; what the handlers do inside a running loop is not part of this statement.
\<close>

theorem insert_clamps_others_raise:
  assumes "\<not> loop_running b"
    and "contents_manager b = Some cm" and "cm path = Some c"
    and "py_or notebook_id (p_path ps) = Some path"
    and "n = int (length (content_cells c))"
  shows "(p_cell_index ps = Some i \<and> n < i \<and> i < 2 ^ 63 \<longrightarrow>
            insert_cell b ps notebook_id =
              (Inr (JObj [(''success'', JBool True), (''operation'', JStr ''insert''),
                          (''cell_count'', JInt (n + 1))]),
               b\<lparr>contents_manager := Some (cm(path \<mapsto> c\<lparr>cells_entry :=
                    Some (content_cells c @
                      [new_cell (case p_cell_type ps of None \<Rightarrow> ''code'' | Some t \<Rightarrow> t)
                                (case p_source ps of None \<Rightarrow> [] | Some s \<Rightarrow> s)])\<rparr>))\<rparr>))
       \<and> (p_cell_index ps = Some i \<and> i \<ge> 2 ^ 63 \<longrightarrow>
            insert_cell b ps notebook_id =
              (Inl (OverflowError ''Python int too large to convert to C ssize_t''), b))
       \<and> (p_cell_index ps = Some i \<and> p_source ps = Some source \<and> (i < 0 \<or> i \<ge> n) \<longrightarrow>
            update_cell b ps notebook_id =
              (Inl (IndexError (''Cell index '' @ str_int i @ '' out of range'')), b))
       \<and> (p_cell_index ps = Some i \<and> (i < 0 \<or> i \<ge> n) \<longrightarrow>
            delete_cell b ps notebook_id =
              (Inl (IndexError (''Cell index '' @ str_int i @ '' out of range'')), b))
       \<and> (p_from_index ps = Some from_index \<and> p_to_index ps = Some to_index
            \<and> (from_index < 0 \<or> from_index \<ge> n) \<longrightarrow>
            move_cell b ps notebook_id =
              (Inl (IndexError (''from_index '' @ str_int from_index @ '' out of range'')), b))
       \<and> (p_from_index ps = Some from_index \<and> p_to_index ps = Some to_index
            \<and> 0 \<le> from_index \<and> from_index < n \<and> (to_index < 0 \<or> to_index > n) \<longrightarrow>
            move_cell b ps notebook_id =
              (Inl (IndexError (''to_index '' @ str_int to_index @ '' out of range'')), b))"
proof (intro conjI impI)
  assume "p_cell_index ps = Some i \<and> n < i \<and> i < 2 ^ 63"
  then show "insert_cell b ps notebook_id =
              (Inr (JObj [(''success'', JBool True), (''operation'', JStr ''insert''),
                          (''cell_count'', JInt (n + 1))]),
               b\<lparr>contents_manager := Some (cm(path \<mapsto> c\<lparr>cells_entry :=
                    Some (content_cells c @
                      [new_cell (case p_cell_type ps of None \<Rightarrow> ''code'' | Some t \<Rightarrow> t)
                                (case p_source ps of None \<Rightarrow> [] | Some s \<Rightarrow> s)])\<rparr>))\<rparr>)"
    using assms(4,5) modify_notebook_direct [OF assms(1,2,3)]
    by (simp add: insert_cell_def py_insert_back)
next
  assume "p_cell_index ps = Some i \<and> i \<ge> 2 ^ 63"
  then show "insert_cell b ps notebook_id =
              (Inl (OverflowError ''Python int too large to convert to C ssize_t''), b)"
    using assms(4) modify_notebook_direct [OF assms(1,2,3)]
    by (simp add: insert_cell_def py_insert_overflow)
next
  assume "p_cell_index ps = Some i \<and> p_source ps = Some source \<and> (i < 0 \<or> i \<ge> n)"
  then show "update_cell b ps notebook_id =
              (Inl (IndexError (''Cell index '' @ str_int i @ '' out of range'')), b)"
    using assms(4,5) modify_notebook_direct [OF assms(1,2,3)]
    by (auto simp: update_cell_def)
next
  assume "p_cell_index ps = Some i \<and> (i < 0 \<or> i \<ge> n)"
  then show "delete_cell b ps notebook_id =
              (Inl (IndexError (''Cell index '' @ str_int i @ '' out of range'')), b)"
    using assms(4,5) modify_notebook_direct [OF assms(1,2,3)]
    by (auto simp: delete_cell_def)
next
  assume "p_from_index ps = Some from_index \<and> p_to_index ps = Some to_index
            \<and> (from_index < 0 \<or> from_index \<ge> n)"
  then show "move_cell b ps notebook_id =
              (Inl (IndexError (''from_index '' @ str_int from_index @ '' out of range'')), b)"
    using assms(4,5) modify_notebook_direct [OF assms(1,2,3)]
    by (auto simp: move_cell_def)
next
  assume "p_from_index ps = Some from_index \<and> p_to_index ps = Some to_index
            \<and> 0 \<le> from_index \<and> from_index < n \<and> (to_index < 0 \<or> to_index > n)"
  then show "move_cell b ps notebook_id =
              (Inl (IndexError (''to_index '' @ str_int to_index @ '' out of range'')), b)"
    using assms(4,5) modify_notebook_direct [OF assms(1,2,3)]
    by (auto simp: move_cell_def)
qed

theorem insert_clamps_others_raise_witness:
  "insert_cell quiet_direct_bridge
       (no_params\<lparr>p_cell_index := Some 7, p_cell_type := Some ''markdown'', p_source := Some ''y''\<rparr>)
       (Some ''nb.ipynb'') =
     (Inr (JObj [(''success'', JBool True), (''operation'', JStr ''insert''), (''cell_count'', JInt 3)]),
      quiet_direct_bridge\<lparr>contents_manager := Some (example_contents(''nb.ipynb'' \<mapsto>
         example_content\<lparr>cells_entry := Some (example_cells @ [new_cell ''markdown'' ''y''])\<rparr>))\<rparr>)
   \<and> insert_cell quiet_direct_bridge (no_params\<lparr>p_cell_index := Some (huge_index + 5)\<rparr>) (Some ''nb.ipynb'') =
     (Inl (OverflowError ''Python int too large to convert to C ssize_t''), quiet_direct_bridge)
   \<and> update_cell quiet_direct_bridge (no_params\<lparr>p_cell_index := Some 7, p_source := Some ''y''\<rparr>)
       (Some ''nb.ipynb'') = (Inl (IndexError ''Cell index 7 out of range''), quiet_direct_bridge)
   \<and> delete_cell quiet_direct_bridge (no_params\<lparr>p_cell_index := Some (- 1)\<rparr>)
       (Some ''nb.ipynb'') = (Inl (IndexError ''Cell index -1 out of range''), quiet_direct_bridge)
   \<and> move_cell quiet_direct_bridge (no_params\<lparr>p_from_index := Some 2, p_to_index := Some 0\<rparr>)
       (Some ''nb.ipynb'') = (Inl (IndexError ''from_index 2 out of range''), quiet_direct_bridge)
   \<and> move_cell quiet_direct_bridge (no_params\<lparr>p_from_index := Some 0, p_to_index := Some 3\<rparr>)
       (Some ''nb.ipynb'') = (Inl (IndexError ''to_index 3 out of range''), quiet_direct_bridge)"
proof -
  note setting = quiet_bridge_facts py_or_def no_params_def
  have huge: "(2::int) ^ 63 \<le> huge_index + 5" by (simp add: huge_index_def)
  have "insert_cell quiet_direct_bridge
       (no_params\<lparr>p_cell_index := Some 7, p_cell_type := Some ''markdown'', p_source := Some ''y''\<rparr>)
       (Some ''nb.ipynb'') =
     (Inr (JObj [(''success'', JBool True), (''operation'', JStr ''insert''), (''cell_count'', JInt 3)]),
      quiet_direct_bridge\<lparr>contents_manager := Some (example_contents(''nb.ipynb'' \<mapsto>
         example_content\<lparr>cells_entry := Some (example_cells @ [new_cell ''markdown'' ''y''])\<rparr>))\<rparr>)"
    using insert_clamps_others_raise [where b = quiet_direct_bridge and cm = example_contents
            and path = "''nb.ipynb''" and c = example_content and notebook_id = "Some ''nb.ipynb''"
            and n = "int (length (content_cells example_content))" and i = 7 and source = "''y''" and from_index = 0 and to_index = 0
            and ps = "no_params\<lparr>p_cell_index := Some 7, p_cell_type := Some ''markdown'', p_source := Some ''y''\<rparr>",
            THEN conjunct1]
    by (simp add: setting)
  moreover have "insert_cell quiet_direct_bridge (no_params\<lparr>p_cell_index := Some (huge_index + 5)\<rparr>) (Some ''nb.ipynb'') =
     (Inl (OverflowError ''Python int too large to convert to C ssize_t''), quiet_direct_bridge)"
    using insert_clamps_others_raise [where b = quiet_direct_bridge and cm = example_contents
            and path = "''nb.ipynb''" and c = example_content and notebook_id = "Some ''nb.ipynb''"
            and n = "int (length (content_cells example_content))" and i = "huge_index + 5" and source = "[]" and from_index = 0 and to_index = 0
            and ps = "no_params\<lparr>p_cell_index := Some (huge_index + 5)\<rparr>",
            THEN conjunct2, THEN conjunct1]
          huge
    by (simp add: setting)
  moreover have "update_cell quiet_direct_bridge (no_params\<lparr>p_cell_index := Some 7, p_source := Some ''y''\<rparr>)
       (Some ''nb.ipynb'') = (Inl (IndexError ''Cell index 7 out of range''), quiet_direct_bridge)"
    using insert_clamps_others_raise [where b = quiet_direct_bridge and cm = example_contents
            and path = "''nb.ipynb''" and c = example_content and notebook_id = "Some ''nb.ipynb''"
            and n = "int (length (content_cells example_content))" and i = 7 and source = "''y''" and from_index = 0 and to_index = 0
            and ps = "no_params\<lparr>p_cell_index := Some 7, p_source := Some ''y''\<rparr>",
            THEN conjunct2, THEN conjunct2, THEN conjunct1]
    by (simp add: setting str_int_def str_nat.simps)
  moreover have "delete_cell quiet_direct_bridge (no_params\<lparr>p_cell_index := Some (- 1)\<rparr>)
       (Some ''nb.ipynb'') = (Inl (IndexError ''Cell index -1 out of range''), quiet_direct_bridge)"
    using insert_clamps_others_raise [where b = quiet_direct_bridge and cm = example_contents
            and path = "''nb.ipynb''" and c = example_content and notebook_id = "Some ''nb.ipynb''"
            and n = "int (length (content_cells example_content))" and i = "- 1" and source = "[]" and from_index = 0 and to_index = 0
            and ps = "no_params\<lparr>p_cell_index := Some (- 1)\<rparr>",
            THEN conjunct2, THEN conjunct2, THEN conjunct2, THEN conjunct1]
    by (simp add: setting str_int_def str_nat.simps)
  moreover have "move_cell quiet_direct_bridge (no_params\<lparr>p_from_index := Some 2, p_to_index := Some 0\<rparr>)
       (Some ''nb.ipynb'') = (Inl (IndexError ''from_index 2 out of range''), quiet_direct_bridge)"
    using insert_clamps_others_raise [where b = quiet_direct_bridge and cm = example_contents
            and path = "''nb.ipynb''" and c = example_content and notebook_id = "Some ''nb.ipynb''"
            and n = "int (length (content_cells example_content))" and i = 0 and source = "[]" and from_index = 2 and to_index = 0
            and ps = "no_params\<lparr>p_from_index := Some 2, p_to_index := Some 0\<rparr>",
            THEN conjunct2, THEN conjunct2, THEN conjunct2, THEN conjunct2, THEN conjunct1]
    by (simp add: setting str_int_def str_nat.simps)
  moreover have "move_cell quiet_direct_bridge (no_params\<lparr>p_from_index := Some 0, p_to_index := Some 3\<rparr>)
       (Some ''nb.ipynb'') = (Inl (IndexError ''to_index 3 out of range''), quiet_direct_bridge)"
    using insert_clamps_others_raise [where b = quiet_direct_bridge and cm = example_contents
            and path = "''nb.ipynb''" and c = example_content and notebook_id = "Some ''nb.ipynb''"
            and n = "int (length (content_cells example_content))" and i = 0 and source = "[]" and from_index = 0 and to_index = 3
            and ps = "no_params\<lparr>p_from_index := Some 0, p_to_index := Some 3\<rparr>",
            THEN conjunct2, THEN conjunct2, THEN conjunct2, THEN conjunct2, THEN conjunct2]
    by (simp add: setting str_int_def str_nat.simps)
  ultimately show ?thesis by blast
qed

subsection \<open>The frame of an update\<close>

lemma update_cell_only_source_direct:
  assumes "\<not> loop_running b"
    and "py_or notebook_id (p_path ps) = Some path"
    and "contents_manager b = Some cm" and "cm path = Some c"
    and "p_cell_index ps = Some i" and "p_source ps = Some source"
    and "0 \<le> i" and "i < int (length (content_cells c))"
  shows "\<exists>cells'.
           update_cell b ps notebook_id =
             (Inr (JObj [(''success'', JBool True), (''operation'', JStr ''update''),
                         (''cell_count'', JInt (int (length (content_cells c))))]),
              b\<lparr>contents_manager := Some (cm(path \<mapsto> c\<lparr>cells_entry := Some cells'\<rparr>))\<rparr>)
         \<and> length cells' = length (content_cells c)
         \<and> (\<forall>j < length cells'. j \<noteq> nat i \<longrightarrow> cells' ! j = content_cells c ! j)
         \<and> dict_get (cells' ! nat i) ''source'' = Some (JStr source)
         \<and> (\<forall>key. key \<noteq> ''source'' \<longrightarrow>
               dict_get (cells' ! nat i) key = dict_get (content_cells c ! nat i) key)"
proof -
  let ?cells = "content_cells c"
  let ?cells' = "?cells[nat i := dict_set (?cells ! nat i) ''source'' (JStr source)]"
  have n: "nat i < length ?cells" using assms(7,8) by linarith
  have "py_getitem ?cells i = Inr (?cells ! nat i)"
    using assms(7,8) by (simp add: py_getitem_def py_index_in_range)
  then have "perform_operation (Update i source) ?cells = Inr ?cells'"
    using assms(7,8) by simp
  then have "update_cell b ps notebook_id =
             (Inr (JObj [(''success'', JBool True), (''operation'', JStr ''update''),
                         (''cell_count'', JInt (int (length ?cells)))]),
              b\<lparr>contents_manager := Some (cm(path \<mapsto> c\<lparr>cells_entry := Some ?cells'\<rparr>))\<rparr>)"
    using assms(2,5,6) modify_notebook_direct [OF assms(1,3,4), of "Update i source"]
    by (simp add: update_cell_def)
  moreover have "length ?cells' = length ?cells" by simp
  moreover have "\<forall>j < length ?cells'. j \<noteq> nat i \<longrightarrow> ?cells' ! j = ?cells ! j" by simp
  moreover have "dict_get (?cells' ! nat i) ''source'' = Some (JStr source)"
    using n by (simp add: dict_get_dict_set)
  moreover have "\<forall>key. key \<noteq> ''source'' \<longrightarrow> dict_get (?cells' ! nat i) key = dict_get (?cells ! nat i) key"
    using n by (simp add: dict_get_dict_set)
  ultimately show ?thesis by blast
qed


section \<open>Properties of the execution loop\<close>

subsection \<open>One turn of the loop, and a prefix of harmless events\<close>

lemma iopub_step_idle: "is_idle m \<Longrightarrow> iopub_step m = Inr Break"
  by (auto simp: is_idle_def iopub_step_def dict_item_def dict_get_def)

lemma iopub_step_well_formed:
  assumes "well_formed m" and "\<not> is_idle m"
  shows "iopub_step m = Inr (if is_output m then Append (output_entry m) else Continue)"
  using assms
  by (auto simp: well_formed_def has_fields_def is_idle_def is_output_def iopub_step_def
        dict_item_def dict_get_def dict_get_or_def output_entry_def field_def
        split: if_splits option.splits)

lemma collect_outputs_skip:
  "\<not> same_execution msg_id m \<Longrightarrow>
     collect_outputs (Msg m ## ch) msg_id outputs = collect_outputs ch msg_id outputs"
  by (subst collect_outputs.simps) (simp add: same_execution_def)

lemma collect_outputs_step:
  "same_execution msg_id m \<Longrightarrow>
     collect_outputs (Msg m ## ch) msg_id outputs =
       (case iopub_step m of
          Inl e \<Rightarrow> Some (Inl e)
        | Inr Break \<Rightarrow> Some (Inr outputs)
        | Inr (Append entry) \<Rightarrow> collect_outputs ch msg_id (outputs @ [entry])
        | Inr Continue \<Rightarrow> collect_outputs ch msg_id outputs)"
  by (subst collect_outputs.simps) (simp add: same_execution_def split: sum.splits step.splits)

lemma collect_outputs_timeout:
  "shd ch = WaitTimeout \<Longrightarrow> collect_outputs ch msg_id outputs = Some (Inr outputs)"
  by (subst collect_outputs.simps) simp

lemma collect_outputs_prefix:
  assumes "\<forall>m \<in> set ms. same_execution msg_id m \<longrightarrow> well_formed m \<and> \<not> is_idle m"
  shows "collect_outputs (map Msg ms @- ch) msg_id outputs =
           collect_outputs ch msg_id (outputs @ outputs_of msg_id ms)"
  using assms
proof (induction ms arbitrary: outputs)
  case Nil
  then show ?case by (simp add: outputs_of_def)
next
  case (Cons m ms)
  show ?case
  proof (cases "same_execution msg_id m")
    case False
    then show ?thesis using Cons by (simp add: collect_outputs_skip outputs_of_def)
  next
    case True
    then have "well_formed m" "\<not> is_idle m" using Cons.prems by simp_all
    then show ?thesis
      using True Cons by (simp add: collect_outputs_step iopub_step_well_formed outputs_of_def)
  qed
qed


lemma collect_outputs_idle:
  "same_execution msg_id m \<Longrightarrow> is_idle m \<Longrightarrow>
     collect_outputs (Msg m ## ch) msg_id outputs = Some (Inr outputs)"
  by (simp add: collect_outputs_step iopub_step_idle)

text \<open>What \<open>execute_code\<close> does around the loop, inside a running event loop and outside.\<close>

lemma execute_code_in_loop:
  assumes "p_code ps = Some code"
    and "session_manager b = Some sessions" and "kernel_manager b = Some km"
    and "loop_running b"
  shows "execute_code b ps notebook_id = Some (Inl loop_error, b)"
  using assms by (simp add: execute_code_def Let_def run_until_complete_def)

lemma execute_code_direct:
  assumes "\<not> loop_running b"
    and "p_code ps = Some code"
    and "session_manager b = Some sessions" and "kernel_manager b = Some km"
    and "find_kernel_id sessions (py_or notebook_id (p_path ps)) = Some kernel_id"
    and "kernel_id \<noteq> []" and "km kernel_id = Some cl"
  shows "execute_code b ps notebook_id =
           (case collect_outputs (iopub cl) (execute cl code) [] of
              None \<Rightarrow> None
            | Some (Inl e) \<Rightarrow> Some (Inl e, b)
            | Some (Inr outputs) \<Rightarrow>
                Some (Inr (JObj [(''outputs'', JList (map JObj outputs)), (''success'', JBool True)]), b))"
  using assms by (simp add: execute_code_def Let_def run_until_complete_def)

lemma collect_outputs_poll_failure:
  "shd ch = PollFailure e \<Longrightarrow> collect_outputs ch msg_id outputs = Some (Inl e)"
  by (subst collect_outputs.simps) simp

lemma iopub_step_Break: "iopub_step m = Inr Break \<Longrightarrow> is_idle m"
  by (auto simp: iopub_step_def is_idle_def dict_item_def dict_get_def
        split: if_splits option.splits sum.splits)

lemma collect_outputs_ends:
  assumes run: "collect_outputs ch msg_id outputs = Some r"
  shows "(\<exists>e. r = Inl e) \<or>
     (\<exists>n. ch !! n = WaitTimeout \<or> (\<exists>m. ch !! n = Msg m \<and> same_execution msg_id m \<and> is_idle m))"
proof (rule collect_outputs.raw_induct [where P = "\<lambda>ch msg_id outputs r. (\<exists>e. r = Inl e) \<or>
     (\<exists>n. ch !! n = WaitTimeout \<or> (\<exists>m. ch !! n = Msg m \<and> same_execution msg_id m \<and> is_idle m))",
     OF _ run], goal_cases)
  case (1 collect ch msg_id outputs r)
  show ?case
  proof (cases "shd ch")
    case WaitTimeout
    then have "ch !! 0 = WaitTimeout" by simp
    then show ?thesis by blast
  next
    case (PollFailure e)
    then show ?thesis using 1(2) by auto
  next
    case (Msg m)
    have later: "(\<exists>e. r = Inl e) \<or> (\<exists>n. ch !! n = WaitTimeout \<or> (\<exists>m. ch !! n = Msg m \<and> same_execution msg_id m \<and> is_idle m))"
      if "collect (stl ch) msg_id outs = Some r" for outs
    proof (cases "\<exists>e. r = Inl e")
      case True
      then show ?thesis by blast
    next
      case False
      with 1(1) [OF that] obtain n where
        "stl ch !! n = WaitTimeout \<or> (\<exists>m. stl ch !! n = Msg m \<and> same_execution msg_id m \<and> is_idle m)"
        by blast
      then have "ch !! Suc n = WaitTimeout \<or> (\<exists>m. ch !! Suc n = Msg m \<and> same_execution msg_id m \<and> is_idle m)"
        by simp
      then show ?thesis by blast
    qed
    show ?thesis
    proof (cases "same_execution msg_id m")
      case False
      then show ?thesis using 1(2) Msg later by (simp add: same_execution_def)
    next
      case True
      then have body: "(case iopub_step m of
              Inl e \<Rightarrow> Some (Inl e)
            | Inr Break \<Rightarrow> Some (Inr outputs)
            | Inr (Append entry) \<Rightarrow> collect (stl ch) msg_id (outputs @ [entry])
            | Inr Continue \<Rightarrow> collect (stl ch) msg_id outputs) = Some r"
        using 1(2) Msg by (simp add: same_execution_def)
      show ?thesis
      proof (cases "iopub_step m")
        case (Inl e)
        then show ?thesis using body by auto
      next
        case (Inr st)
        show ?thesis
        proof (cases st)
          case Break
          then have "is_idle m" using Inr by (simp add: iopub_step_Break)
          then have "ch !! 0 = Msg m \<and> same_execution msg_id m \<and> is_idle m"
            using Msg True by simp
          then show ?thesis by blast
        next
          case (Append entry)
          then show ?thesis using body Inr later by simp
        next
          case Continue
          then show ?thesis using body Inr later by simp
        qed
      qed
    qed
  qed
qed

subsection \<open>The example events\<close>

lemmas example_events =
  stream_event_def result_event_def error_event_def busy_event_def idle_event_def foreign_event_def

lemma example_events_classified:
  "same_execution ''m1'' stream_event" "same_execution ''m1'' result_event"
  "same_execution ''m1'' error_event" "same_execution ''m1'' busy_event"
  "same_execution ''m1'' idle_event" "\<not> same_execution ''m1'' foreign_event"
  "is_idle idle_event" "\<not> is_idle busy_event" "\<not> is_idle stream_event"
  "\<not> is_idle result_event" "\<not> is_idle error_event"
  "well_formed stream_event" "well_formed result_event" "well_formed error_event"
  "well_formed busy_event"
  "is_output stream_event" "is_output result_event" "is_output error_event"
  "\<not> is_output busy_event"
  by (simp_all add: example_events same_execution_def is_idle_def well_formed_def has_fields_def
        is_output_def dict_get_def)

lemma example_entries:
  "output_entry stream_event = stream_entry"
  "output_entry result_event = result_entry"
  "output_entry error_event = error_entry"
  by (simp_all add: output_entry_def field_def dict_get_or_def example_events
        stream_entry_def result_entry_def error_entry_def)


subsection \<open>A run that settles to idle\<close>


lemma example_kernel:
  "session_manager (example_bridge ch) =
     Some [\<lparr>session_path = Some ''nb.ipynb'', session_kernel_id = Some ''k1''\<rparr>]"
  "kernel_manager (example_bridge ch) = Some [''k1'' \<mapsto> \<lparr>execute = (\<lambda>code. ''m1''), iopub = ch\<rparr>]"
  "loop_running (example_bridge ch)" "in_coroutine (example_bridge ch) = example_bridge ch"
  "session_manager (direct_bridge ch) =
     Some [\<lparr>session_path = Some ''nb.ipynb'', session_kernel_id = Some ''k1''\<rparr>]"
  "kernel_manager (direct_bridge ch) = Some [''k1'' \<mapsto> \<lparr>execute = (\<lambda>code. ''m1''), iopub = ch\<rparr>]"
  "\<not> loop_running (direct_bridge ch)" "p_code run_code = Some ''1''" "p_path run_code = None"
  by (simp_all add: example_bridge_def direct_bridge_def in_coroutine_def run_code_def no_params_def)

lemma example_execute_in_loop:
  "execute_code (example_bridge ch) run_code notebook_id = Some (Inl loop_error, example_bridge ch)"
  by (rule execute_code_in_loop [where code = "''1''"]) (simp_all add: example_kernel)

lemma execute_request_dispatched:
  "handle_request (bridge_methods unavailable) ''u-1'' execute_request fresh_socket (example_bridge ch) =
     Some (Inr (), \<lparr>written = [loop_error_response ''14''], closed = False\<rparr>, example_bridge ch)"
proof -
  have "handle_request (bridge_methods unavailable) ''u-1'' execute_request fresh_socket (example_bridge ch) =
     Some (Inr (), fresh_socket\<lparr>written := written fresh_socket @ [error_response ''14'' (str_error loop_error)]\<rparr>,
           example_bridge ch)"
    by (rule dispatch_raised [where action = "''execute_code''" and ps = run_code])
       (simp_all add: execute_request_def handler_names_def bridge_methods_def example_kernel
          example_execute_in_loop)
  then show ?thesis
    by (simp add: fresh_socket_def loop_error_response_def loop_error_def)
qed


subsection \<open>A run whose wait times out\<close>

lemma execute_code_wait_empty_direct:
  assumes "\<not> loop_running b"
    and "p_code ps = Some code"
    and "session_manager b = Some sessions" and "kernel_manager b = Some km"
    and "find_kernel_id sessions (py_or notebook_id (p_path ps)) = Some kernel_id"
    and "kernel_id \<noteq> []" and "km kernel_id = Some cl"
    and "execute cl code = msg_id"
    and "iopub cl = map Msg events @- (PollFailure Empty ## rest)"
    and "\<forall>m \<in> set events. same_execution msg_id m \<longrightarrow> well_formed m \<and> \<not> is_idle m"
  shows "execute_code b ps notebook_id = Some (Inl Empty, b)"
proof -
  have "collect_outputs (iopub cl) msg_id [] = Some (Inl Empty)"
    using assms(9) collect_outputs_prefix [OF assms(10), of "PollFailure Empty ## rest" "[]"]
    by (simp add: collect_outputs_poll_failure)
  then show ?thesis
    using execute_code_direct [OF assms(1-7)] assms(8) by simp
qed

lemma execute_code_timeout_error_direct:
  assumes "\<not> loop_running b"
    and "p_code ps = Some code"
    and "session_manager b = Some sessions" and "kernel_manager b = Some km"
    and "find_kernel_id sessions (py_or notebook_id (p_path ps)) = Some kernel_id"
    and "kernel_id \<noteq> []" and "km kernel_id = Some cl"
    and "execute cl code = msg_id"
    and "iopub cl = map Msg events @- (WaitTimeout ## rest)"
    and "\<forall>m \<in> set events. same_execution msg_id m \<longrightarrow> well_formed m \<and> \<not> is_idle m"
  shows "execute_code b ps notebook_id =
           Some (Inr (JObj [(''outputs'', JList (map JObj (outputs_of msg_id events))),
                            (''success'', JBool True)]), b)"
proof -
  have "collect_outputs (iopub cl) msg_id [] = Some (Inr (outputs_of msg_id events))"
    using assms(9) collect_outputs_prefix [OF assms(10), of "WaitTimeout ## rest" "[]"]
    by (simp add: collect_outputs_timeout)
  then show ?thesis
    using execute_code_direct [OF assms(1-7)] assms(8) by simp
qed

text \<open>
  Claim C1 asks that a run whose wait times out before any idle status end at once, return
  the outputs collected so far and report \<open>success = False\<close>. The code does not: a wait of
  the kernel client that runs out of time raises \<open>queue.Empty\<close>, which the clause
  \<open>except TimeoutError\<close> does not catch, so \<open>execute_code\<close>, called with no loop running,
  raises \<open>Empty\<close> and returns neither the outputs nor a success flag (first equation; the
  kernel has sent one stream output before it falls silent). The clause catches the builtin
  \<open>TimeoutError\<close> only, and leaves the loop then for the single return with
  \<open>success = True\<close> (lemma above). Called through \<open>_handle_request\<close>, the only way into the bridge,
  \<open>execute_code\<close> does not reach the loop at all: it raises \<open>RuntimeError\<close> when it lists
  the sessions, and the request is answered with that message.
\<close>

theorem execute_code_wait_timeout_raises:
  "execute_code (direct_bridge silent_channel) run_code (Some ''nb.ipynb'') =
     Some (Inl Empty, direct_bridge silent_channel)
   \<and> execute_code (example_bridge silent_channel) run_code (Some ''nb.ipynb'') =
     Some (Inl loop_error, example_bridge silent_channel)
   \<and> handle_request (bridge_methods unavailable) ''u-1'' execute_request fresh_socket
       (example_bridge silent_channel) =
     Some (Inr (), \<lparr>written = [loop_error_response ''14''], closed = False\<rparr>,
           example_bridge silent_channel)"
proof -
  have "execute_code (direct_bridge silent_channel) run_code (Some ''nb.ipynb'') =
     Some (Inl Empty, direct_bridge silent_channel)"
    using execute_code_wait_empty_direct [where b = "direct_bridge silent_channel" and ps = run_code
            and code = "''1''" and notebook_id = "Some ''nb.ipynb''" and kernel_id = "''k1''"
            and cl = "\<lparr>execute = (\<lambda>code. ''m1''), iopub = silent_channel\<rparr>"
            and msg_id = "''m1''" and events = "[busy_event, stream_event, foreign_event]"
            and rest = "sconst (PollFailure Empty)", OF example_kernel(7,8,5,6)]
    by (simp add: py_or_def silent_channel_def example_events_classified)
  then show ?thesis
    using example_execute_in_loop [of silent_channel "Some ''nb.ipynb''"]
          execute_request_dispatched [of silent_channel]
    by simp
qed

subsection \<open>Error events\<close>

text \<open>
  Claim C4. An error event of this execution appends the entry made of its \<open>ename\<close>,
  \<open>evalue\<close> and \<open>traceback\<close>, and the loop goes on with the rest of the channel: the
  error event does not end the run. Whenever the loop returns outputs, the channel holds a
  wait timeout or an idle status of this execution.
\<close>

theorem error_event_not_terminal:
  "(same_execution msg_id m \<and> msg_type m = ''error''
      \<and> dict_get (msg_content m) ''ename'' = Some ename
      \<and> dict_get (msg_content m) ''evalue'' = Some evalue
      \<and> dict_get (msg_content m) ''traceback'' = Some traceback \<longrightarrow>
      collect_outputs (Msg m ## ch) msg_id outputs =
        collect_outputs ch msg_id
          (outputs @ [[(''output_type'', JStr ''error''), (''ename'', ename),
                       (''evalue'', evalue), (''traceback'', traceback)]]))
   \<and> (collect_outputs ch' msg_id outputs' = Some (Inr result) \<longrightarrow>
        (\<exists>n. ch' !! n = WaitTimeout
           \<or> (\<exists>idle. ch' !! n = Msg idle \<and> same_execution msg_id idle \<and> is_idle idle)))"
proof (intro conjI impI)
  assume a: "same_execution msg_id m \<and> msg_type m = ''error''
      \<and> dict_get (msg_content m) ''ename'' = Some ename
      \<and> dict_get (msg_content m) ''evalue'' = Some evalue
      \<and> dict_get (msg_content m) ''traceback'' = Some traceback"
  then have "iopub_step m = Inr (Append [(''output_type'', JStr ''error''), (''ename'', ename),
                       (''evalue'', evalue), (''traceback'', traceback)])"
    by (simp add: iopub_step_def dict_item_def dict_get_def)
  then show "collect_outputs (Msg m ## ch) msg_id outputs =
        collect_outputs ch msg_id
          (outputs @ [[(''output_type'', JStr ''error''), (''ename'', ename),
                       (''evalue'', evalue), (''traceback'', traceback)]])"
    using a by (simp add: collect_outputs_step)
next
  assume "collect_outputs ch' msg_id outputs' = Some (Inr result)"
  from collect_outputs_ends [OF this]
  show "\<exists>n. ch' !! n = WaitTimeout
           \<or> (\<exists>idle. ch' !! n = Msg idle \<and> same_execution msg_id idle \<and> is_idle idle)"
    by simp
qed

theorem error_event_not_terminal_witness:
  "collect_outputs (Msg error_event ## Msg stream_event ## Msg idle_event ## sconst WaitTimeout) ''m1'' [] =
     collect_outputs (Msg stream_event ## Msg idle_event ## sconst WaitTimeout) ''m1'' [error_entry]
   \<and> collect_outputs (Msg error_event ## Msg stream_event ## Msg idle_event ## sconst WaitTimeout) ''m1'' [] =
     Some (Inr [error_entry, stream_entry])
   \<and> (\<exists>n. (Msg error_event ## Msg stream_event ## Msg idle_event ## sconst WaitTimeout) !! n = WaitTimeout
        \<or> (\<exists>idle. (Msg error_event ## Msg stream_event ## Msg idle_event ## sconst WaitTimeout) !! n = Msg idle
              \<and> same_execution ''m1'' idle \<and> is_idle idle))"
proof -
  have run: "collect_outputs (Msg error_event ## Msg stream_event ## Msg idle_event ## sconst WaitTimeout) ''m1'' [] =
     Some (Inr [error_entry, stream_entry])"
    using collect_outputs_prefix [of "[error_event, stream_event]" "''m1''"
            "Msg idle_event ## sconst WaitTimeout" "[]"]
    by (simp add: example_events_classified example_entries collect_outputs_idle outputs_of_def)
  have fields: "msg_type error_event = ''error''"
    "dict_get (msg_content error_event) ''ename'' = Some (JStr ''ZeroDivisionError'')"
    "dict_get (msg_content error_event) ''evalue'' = Some (JStr ''division by zero'')"
    "dict_get (msg_content error_event) ''traceback'' = Some (JList [JStr ''Traceback (most recent call last)''])"
    by (simp_all add: error_event_def dict_get_def)
  show ?thesis
    using error_event_not_terminal [of "''m1''" error_event "JStr ''ZeroDivisionError''"
            "JStr ''division by zero''" "JList [JStr ''Traceback (most recent call last)'']"
            "Msg stream_event ## Msg idle_event ## sconst WaitTimeout" "[]"
            "Msg error_event ## Msg stream_event ## Msg idle_event ## sconst WaitTimeout" "[]"
            "[error_entry, stream_entry]"]
          run fields example_events_classified(3)
    by (simp add: error_entry_def)
qed

section \<open>Properties of the dispatcher\<close>

text \<open>
  Claim C3 as stated gives the answer \<open>Unknown action: <name>\<close> for every action that is
  not in the handler map. The empty action is not in the map, and the guard \<open>if not action\<close>
  answers it with \<open>Missing action\<close> before the map is consulted.
\<close>

theorem unknown_action_counterexample:
  "[] \<notin> set handler_names
   \<and> handle_request (bridge_methods unavailable) ''u-1'' empty_action_request fresh_socket quiet_bridge =
       Some (Inr (), \<lparr>written = [error_response ''8'' ''Missing action''], closed = False\<rparr>, quiet_bridge)
   \<and> handle_request (bridge_methods unavailable) ''u-1'' empty_action_request fresh_socket quiet_bridge \<noteq>
       Some (Inr (), \<lparr>written = [error_response ''8'' (''Unknown action: '' @ [])], closed = False\<rparr>, quiet_bridge)"
  by (simp add: handler_names_def handle_request_def empty_action_request_def fresh_socket_def
        send_error_written error_response_def)

text \<open>
  Claim C3, amended. For every inbound request, whatever the bridge methods do: an absent or
  empty action is answered with \<open>success = False\<close> and the error \<open>Missing action\<close>; a
  non-empty action that is not a key of the handler map is answered with \<open>success = False\<close>
  and \<open>Unknown action: <name>\<close>; and when the handler of a known action raises, the answer
  is \<open>success = False\<close> with \<open>str\<close> of the exception. In each case the exception does not
  leave \<open>_handle_request\<close>, exactly one response is written, under the request's id (or the
  fresh one), and the socket is not closed.
\<close>

theorem handle_request_failures:
  assumes "request_id = (case env_id data of None \<Rightarrow> fresh | Some i \<Rightarrow> i)"
    and "ps = (case env_params data of None \<Rightarrow> no_params | Some p \<Rightarrow> p)"
  shows "(env_action data = None \<or> env_action data = Some [] \<longrightarrow>
            handle_request methods fresh data ws w =
              Some (Inr (), ws\<lparr>written := written ws @ [error_response request_id ''Missing action'']\<rparr>, w))
       \<and> (env_action data = Some action \<and> action \<noteq> [] \<and> action \<notin> set handler_names \<longrightarrow>
            handle_request methods fresh data ws w =
              Some (Inr (), ws\<lparr>written := written ws @
                      [error_response request_id (''Unknown action: '' @ action)]\<rparr>, w))
       \<and> (env_action data = Some action \<and> action \<in> set handler_names
            \<and> methods action ps (env_notebook_id data) w = Some (Inl e, w') \<longrightarrow>
            handle_request methods fresh data ws w =
              Some (Inr (), ws\<lparr>written := written ws @ [error_response request_id (str_error e)]\<rparr>, w'))"
proof (intro conjI impI)
  assume "env_action data = None \<or> env_action data = Some []"
  then show "handle_request methods fresh data ws w =
              Some (Inr (), ws\<lparr>written := written ws @ [error_response request_id ''Missing action'']\<rparr>, w)"
    using assms(1) by (auto simp: handle_request_def send_error_written)
next
  assume "env_action data = Some action \<and> action \<noteq> [] \<and> action \<notin> set handler_names"
  then show "handle_request methods fresh data ws w =
              Some (Inr (), ws\<lparr>written := written ws @
                      [error_response request_id (''Unknown action: '' @ action)]\<rparr>, w)"
    using assms(1) by (simp add: handle_request_def handlers_def send_error_written)
next
  assume a: "env_action data = Some action \<and> action \<in> set handler_names
            \<and> methods action ps (env_notebook_id data) w = Some (Inl e, w')"
  then have "action \<noteq> []" by (auto simp: handler_names_def)
  then show "handle_request methods fresh data ws w =
              Some (Inr (), ws\<lparr>written := written ws @ [error_response request_id (str_error e)]\<rparr>, w')"
    using a assms by (simp add: handle_request_def handlers_def send_error_written)
qed

theorem handle_request_failures_witness:
  "handle_request (bridge_methods unavailable) ''u-1'' empty_action_request fresh_socket quiet_bridge =
     Some (Inr (), \<lparr>written = [error_response ''8'' ''Missing action''], closed = False\<rparr>, quiet_bridge)
   \<and> handle_request (bridge_methods unavailable) ''u-1'' rename_request fresh_socket quiet_bridge =
     Some (Inr (), \<lparr>written = [error_response ''u-1'' ''Unknown action: rename_notebook''], closed = False\<rparr>,
           quiet_bridge)
   \<and> handle_request (bridge_methods unavailable) ''u-1'' get_cell_request fresh_socket quiet_bridge =
     Some (Inr (), \<lparr>written = [error_response ''7'' ''cell_index required''], closed = False\<rparr>, quiet_bridge)"
proof -
  have raised: "bridge_methods unavailable ''get_cell'' no_params (Some ''nb.ipynb'') quiet_bridge =
      Some (Inl (ValueError ''cell_index required''), quiet_bridge)"
    by (simp add: bridge_methods_def get_cell_def no_params_def quiet_bridge_facts)
  show ?thesis
    using handle_request_failures [where request_id = "''8''" and data = empty_action_request
            and fresh = "''u-1''" and ps = no_params and methods = "bridge_methods unavailable"
            and ws = fresh_socket and w = quiet_bridge and action = "[]"]
          handle_request_failures [where request_id = "''u-1''" and data = rename_request
            and fresh = "''u-1''" and ps = no_params and methods = "bridge_methods unavailable"
            and ws = fresh_socket and w = quiet_bridge and action = "''rename_notebook''"]
          handle_request_failures [where request_id = "''7''" and data = get_cell_request
            and fresh = "''u-1''" and ps = no_params and methods = "bridge_methods unavailable"
            and ws = fresh_socket and w = quiet_bridge and action = "''get_cell''"
            and e = "ValueError ''cell_index required''" and w' = quiet_bridge]
          raised
    by (simp add: empty_action_request_def rename_request_def get_cell_request_def fresh_socket_def
          handler_names_def)
qed

end
